theory Spec2Isabelle
  imports Main "HOL-Library.Word"
begin

unbundle bit_operations_syntax

section \<open>Strings: the two normalisation helpers of main.go\<close>

text \<open>
  A Go string is a HOL \<open>string\<close>, one \<open>char\<close> per byte. The helpers of main.go call
  \<open>strings.TrimSpace\<close> and \<open>strings.ToLower\<close> of the Go standard library, which is not part
  of the repository: the two functions are a parameter \<open>lib\<close> of every handler that
  normalises its input. The theorems hold for every \<open>lib\<close>, hence for the library's
  functions on all strings, Unicode white space and letters included.
\<close>

record strings =
  TrimSpace :: "string \<Rightarrow> string"
  ToLower :: "string \<Rightarrow> string"

definition normalizeEmail :: "strings \<Rightarrow> string \<Rightarrow> string" where
  "normalizeEmail lib email = ToLower lib (TrimSpace lib email)"

definition normalizeText :: "strings \<Rightarrow> string \<Rightarrow> string" where
  "normalizeText lib s = TrimSpace lib s"

section \<open>Object identifiers\<close>

text \<open>
  \<open>primitive.ObjectID\<close> is an array of 12 bytes, here a 96-bit word (most significant byte
  first). \<open>ObjectIDFromHex\<close> accepts exactly the strings of 24 hexadecimal digits, of either
  case; \<open>Hex\<close> prints 24 lower-case digits.
\<close>

type_synonym ObjectID = "96 word"

definition fromHexChar :: "char \<Rightarrow> nat option" where
  "fromHexChar c =
     (let n = (of_char c :: nat) in
      if 48 \<le> n \<and> n \<le> 57 then Some (n - 48)
      else if 97 \<le> n \<and> n \<le> 102 then Some (n - 97 + 10)
      else if 65 \<le> n \<and> n \<le> 70 then Some (n - 65 + 10)
      else None)"

definition ObjectIDFromHex :: "string \<Rightarrow> ObjectID option" where
  "ObjectIDFromHex s =
     (if length s \<noteq> 24 then None
      else case those (map fromHexChar s) of
             None \<Rightarrow> None
           | Some ds \<Rightarrow> Some (foldl (\<lambda>acc d. acc * 16 + of_nat d) 0 ds))"

definition hexDigit :: "nat \<Rightarrow> char" where
  "hexDigit n = ''0123456789abcdef'' ! (n mod 16)"

definition Hex :: "ObjectID \<Rightarrow> string" where
  "Hex w = map (\<lambda>i. hexDigit (unat (drop_bit (4 * (23 - i)) w AND 15))) [0..<24]"

section \<open>Data model\<close>

text \<open>A \<open>time.Time\<close> is the instant it denotes, in nanoseconds since the Unix epoch.\<close>

type_synonym time = nat

record User =
  Email :: string
  Password :: string

record Todo =
  ID :: ObjectID
  Email :: string
  Title :: string
  Completed :: bool
  CreatedAt :: time

record TodoResponse =
  ID :: string
  Email :: string
  Title :: string
  Completed :: bool
  CreatedAt :: time

definition toTodoResponse :: "Todo \<Rightarrow> TodoResponse" where
  "toTodoResponse todo =
     \<lparr>TodoResponse.ID = Hex (Todo.ID todo),
      Email = Todo.Email todo,
      Title = Todo.Title todo,
      Completed = Todo.Completed todo,
      CreatedAt = Todo.CreatedAt todo\<rparr>"

text \<open>The request bodies bound by \<open>createTodo\<close> and \<open>updateTodo\<close>; a nil pointer is \<open>None\<close>.\<close>

record createInput =
  Email :: string
  Title :: string

record updateInput =
  Title :: "string option"
  Completed :: "bool option"

section \<open>The store\<close>

text \<open>
  The two MongoDB collections are lists of documents in the store's natural order. Every call
  of the driver is recorded in \<open>calls\<close>, so that "no persistence call is made" can be stated.
  What the handlers cannot decide is an input: \<open>fails\<close> tells which driver calls of the
  request return an error other than \<open>mongo.ErrNoDocuments\<close>, \<open>NewObjectID\<close> is the identifier
  the driver generates for an inserted Todo, \<open>Now\<close> is the clock.
\<close>

datatype collection = users | todos

datatype store_op = FindOne | InsertOne | Find | CursorAll | UpdateByID | DeleteOne | DeleteMany

datatype store_err = ErrNoDocuments | ErrStore

record store =
  userCollection :: "User list"
  todoCollection :: "Todo list"
  calls :: "(collection \<times> store_op) list"

record env =
  fails :: "store_op \<Rightarrow> bool"
  NewObjectID :: ObjectID
  Now :: time

definition logCall :: "collection \<Rightarrow> store_op \<Rightarrow> store \<Rightarrow> store"
    where
  "logCall c op s = s\<lparr>calls := calls s @ [(c, op)]\<rparr>"

text \<open>A BSON date-time has millisecond precision.\<close>

definition bsonDateTime :: "time \<Rightarrow> time" where
  "bsonDateTime t = (t div 1000000) * 1000000"

text \<open>The filter \<open>bson.M{}\<close> is \<open>None\<close>, the filter \<open>bson.M{"email": x}\<close> is \<open>Some x\<close>.\<close>

definition matchesEmail :: "string option \<Rightarrow> Todo \<Rightarrow> bool" where
  "matchesEmail flt t = (case flt of None \<Rightarrow> True | Some x \<Rightarrow> Todo.Email t =
      x)"

fun updateFirst :: "('a \<Rightarrow> bool) \<Rightarrow>
    ('a \<Rightarrow> 'a) \<Rightarrow> 'a list \<Rightarrow> 'a list" where
  "updateFirst P f [] = []"
| "updateFirst P f (x # xs) = (if P x then f x # xs else x # updateFirst P f xs)"

fun deleteFirst :: "('a \<Rightarrow> bool) \<Rightarrow> 'a list \<Rightarrow> 'a list" where
  "deleteFirst P [] = []"
| "deleteFirst P (x # xs) = (if P x then xs else x # deleteFirst P xs)"

definition usersFindOne :: "env \<Rightarrow> string \<Rightarrow> store \<Rightarrow>
    (store_err + User) \<times> store" where
  "usersFindOne e email s =
     (if fails e FindOne then Inl ErrStore
      else case find (\<lambda>u. User.Email u = email) (userCollection s) of
             None \<Rightarrow> Inl ErrNoDocuments
           | Some u \<Rightarrow> Inr u,
      logCall users FindOne s)"

definition usersInsertOne :: "env \<Rightarrow> User \<Rightarrow> store \<Rightarrow>
    (store_err + unit) \<times> store" where
  "usersInsertOne e user s =
     (if fails e InsertOne then (Inl ErrStore, logCall users InsertOne s)
      else (Inr (), logCall users InsertOne (s\<lparr>userCollection := userCollection s
          @ [user]\<rparr>)))"

definition usersFindAll :: "env \<Rightarrow> store \<Rightarrow>
    (store_err + User list) \<times> store" where
  "usersFindAll e s =
     (if fails e Find then Inl ErrStore else Inr (userCollection s), logCall users Find s)"

definition usersDeleteMany :: "env \<Rightarrow> store \<Rightarrow>
    (store_err + unit) \<times> store" where
  "usersDeleteMany e s =
     (if fails e DeleteMany then (Inl ErrStore, logCall users DeleteMany s)
      else (Inr (), logCall users DeleteMany (s\<lparr>userCollection := []\<rparr>)))"

definition todosFind :: "env \<Rightarrow> string option \<Rightarrow> store \<Rightarrow>
    (store_err + Todo list) \<times> store" where
  "todosFind e flt s =
     (if fails e Find then Inl ErrStore else Inr (filter (matchesEmail flt) (todoCollection s)),
      logCall todos Find s)"

text \<open>
  \<open>InsertOne\<close> on a Todo whose \<open>_id\<close> is omitted: the driver adds the generated identifier, the
  date is stored as a BSON date-time, and the unique index on \<open>_id\<close> rejects a duplicate key.
\<close>

definition todosInsertOne :: "env \<Rightarrow> Todo \<Rightarrow> store \<Rightarrow>
    (store_err + ObjectID) \<times> store" where
  "todosInsertOne e todo s =
     (if fails e InsertOne \<or> NewObjectID e \<in> set (map Todo.ID (todoCollection s))
      then (Inl ErrStore, logCall todos InsertOne s)
      else (Inr (NewObjectID e),
            logCall todos InsertOne
              (s\<lparr>todoCollection := todoCollection s @
                    [todo\<lparr>Todo.ID := NewObjectID e,
                          Todo.CreatedAt := bsonDateTime (Todo.CreatedAt todo)\<rparr>]\<rparr>)))"

text \<open>\<open>UpdateByID\<close> with \<open>$set\<close>: the fields present in the update document are written.\<close>

definition applySet :: "string option \<times> bool option \<Rightarrow> Todo \<Rightarrow> Todo"
    where
  "applySet upd t =
     t\<lparr>Todo.Title := (case fst upd of None \<Rightarrow> Todo.Title t | Some x
         \<Rightarrow> x),
       Todo.Completed := (case snd upd of None \<Rightarrow> Todo.Completed t | Some c
           \<Rightarrow> c)\<rparr>"

definition todosUpdateByID ::
  "env \<Rightarrow> ObjectID \<Rightarrow> string option \<times> bool option \<Rightarrow> store
      \<Rightarrow> (store_err + unit) \<times> store" where
  "todosUpdateByID e objID upd s =
     (if fails e UpdateByID then (Inl ErrStore, logCall todos UpdateByID s)
      else (Inr (),
            logCall todos UpdateByID
              (s\<lparr>todoCollection :=
                    updateFirst (\<lambda>t. Todo.ID t = objID) (applySet upd)
                        (todoCollection s)\<rparr>)))"

definition todosFindOne :: "env \<Rightarrow> ObjectID \<Rightarrow> store \<Rightarrow>
    (store_err + Todo) \<times> store" where
  "todosFindOne e objID s =
     (if fails e FindOne then Inl ErrStore
      else case find (\<lambda>t. Todo.ID t = objID) (todoCollection s) of
             None \<Rightarrow> Inl ErrNoDocuments
           | Some t \<Rightarrow> Inr t,
      logCall todos FindOne s)"

definition todosDeleteOne :: "env \<Rightarrow> ObjectID \<Rightarrow> store \<Rightarrow>
    (store_err + unit) \<times> store" where
  "todosDeleteOne e objID s =
     (if fails e DeleteOne then (Inl ErrStore, logCall todos DeleteOne s)
      else (Inr (),
            logCall todos DeleteOne
              (s\<lparr>todoCollection := deleteFirst (\<lambda>t. Todo.ID t = objID)
                  (todoCollection s)\<rparr>)))"

definition todosDeleteMany :: "env \<Rightarrow> string option \<Rightarrow> store \<Rightarrow>
    (store_err + unit) \<times> store" where
  "todosDeleteMany e flt s =
     (if fails e DeleteMany then (Inl ErrStore, logCall todos DeleteMany s)
      else (Inr (),
            logCall todos DeleteMany
              (s\<lparr>todoCollection := filter (\<lambda>t. \<not> matchesEmail flt t)
                  (todoCollection s)\<rparr>)))"

section \<open>Responses\<close>

text \<open>
  A response is the HTTP status with the one key of its JSON object. The messages are the
  byte strings of the source (UTF-8).
\<close>

datatype body =
    message string
  | error string
  | usersBody "User list"
  | todosBody "TodoResponse list"
  | todoBody TodoResponse
  | healthBody string time

type_synonym response = "nat \<times> body"

definition StatusOK :: nat where "StatusOK = 200"
definition StatusCreated :: nat where "StatusCreated = 201"
definition StatusBadRequest :: nat where "StatusBadRequest = 400"
definition StatusUnauthorized :: nat where "StatusUnauthorized = 401"
definition StatusConflict :: nat where "StatusConflict = 409"
definition StatusInternalServerError :: nat where "StatusInternalServerError = 500"

definition datosInvalidos :: string where
  "datosInvalidos = ''Datos inv'' @ [CHR 0xC3, CHR 0xA1] @ ''lidos''"

definition emailPasswordRequeridos :: string where
  "emailPasswordRequeridos = ''Email y contrase'' @ [CHR 0xC3, CHR 0xB1] @ ''a son requeridos''"

definition usuarioRegistrado :: string where
  "usuarioRegistrado = ''Usuario registrado con '' @ [CHR 0xC3, CHR 0xA9] @ ''xito''"

definition emailTituloRequeridos :: string where
  "emailTituloRequeridos = ''Email y t'' @ [CHR 0xC3, CHR 0xAD] @ ''tulo son requeridos''"

definition idInvalido :: string where
  "idInvalido = ''ID inv'' @ [CHR 0xC3, CHR 0xA1] @ ''lido''"

definition tituloVacio :: string where
  "tituloVacio = ''El t'' @ [CHR 0xC3, CHR 0xAD] @ ''tulo no puede estar vac''
      @ [CHR 0xC3, CHR 0xAD] @ ''o''"

section \<open>Handlers\<close>

text \<open>
  Each handler takes the bound request (\<open>None\<close> when \<open>BindJSON\<close> fails) and the store, and
  returns the response with the store after the request.
\<close>

definition registerUser :: "strings \<Rightarrow> env \<Rightarrow> User option \<Rightarrow>
    store \<Rightarrow> response \<times> store" where
  "registerUser lib e bound s =
     (case bound of
        None \<Rightarrow> ((StatusBadRequest, error datosInvalidos), s)
      | Some u \<Rightarrow>
          (let user = \<lparr>User.Email = normalizeEmail lib (User.Email u),
                       Password = normalizeText lib (Password u)\<rparr>
           in if User.Email user = [] \<or> Password user = []
              then ((StatusBadRequest, error emailPasswordRequeridos), s)
              else
                (let (found, s1) = usersFindOne e (User.Email user) s
                 in (case found of
                       Inr existing \<Rightarrow>
                           ((StatusConflict, error ''Usuario ya existe''), s1)
                     | Inl err \<Rightarrow>
                         (let (res, s2) = usersInsertOne e user s1
                          in (case res of
                                Inl err2 \<Rightarrow>
                                  ((StatusInternalServerError, error ''Error al registrar''), s2)
                              | Inr _ \<Rightarrow>
                                  ((StatusCreated, message usuarioRegistrado), s2)))))))"

definition healthHandler :: "env \<Rightarrow> store \<Rightarrow> response \<times> store" where
  "healthHandler e s = ((StatusOK, healthBody ''ok'' (Now e)), s)"

definition loginUser :: "strings \<Rightarrow> env \<Rightarrow> User option \<Rightarrow> store
    \<Rightarrow> response \<times> store" where
  "loginUser lib e bound s =
     (case bound of
        None \<Rightarrow> ((StatusBadRequest, error datosInvalidos), s)
      | Some u \<Rightarrow>
          (let user = \<lparr>User.Email = normalizeEmail lib (User.Email u),
                       Password = normalizeText lib (Password u)\<rparr>
           in if User.Email user = [] \<or> Password user = []
              then ((StatusBadRequest, error emailPasswordRequeridos), s)
              else
                (let (res, s1) = usersFindOne e (User.Email user) s
                 in (case res of
                       Inl err \<Rightarrow> ((StatusUnauthorized, error
                           ''Usuario no encontrado''), s1)
                     | Inr found \<Rightarrow>
                         if Password found \<noteq> Password user
                         then ((StatusUnauthorized, error ''Password incorrecto''), s1)
                         else ((StatusOK, message ''Login exitoso''), s1)))))"

definition listUsers :: "env \<Rightarrow> store \<Rightarrow> response \<times> store" where
  "listUsers e s =
     (let (res, s1) = usersFindAll e s
      in (case res of
            Inl err \<Rightarrow> ((StatusInternalServerError, error
                ''Error al obtener usuarios''), s1)
          | Inr cursor \<Rightarrow>
              if fails e CursorAll
              then ((StatusInternalServerError, error ''Error al procesar usuarios''),
                    logCall users CursorAll s1)
              else ((StatusOK, usersBody cursor), logCall users CursorAll s1)))"

definition clearUsers :: "env \<Rightarrow> store \<Rightarrow> response \<times> store" where
  "clearUsers e s =
     (let (res, s1) = usersDeleteMany e s
      in (case res of
            Inl err \<Rightarrow> ((StatusInternalServerError, error
                ''Error al limpiar usuarios''), s1)
          | Inr _ \<Rightarrow> ((StatusOK, message ''Todos los usuarios han sido eliminados''),
              s1)))"

definition listTodos :: "strings \<Rightarrow> env \<Rightarrow> string \<Rightarrow> store
    \<Rightarrow> response \<times> store" where
  "listTodos lib e email s =
     (let flt = (if email \<noteq> [] then Some (normalizeEmail lib email) else None);
          (res, s1) = todosFind e flt s
      in (case res of
            Inl err \<Rightarrow> ((StatusInternalServerError, error ''Error al obtener tareas''),
                s1)
          | Inr cursor \<Rightarrow>
              if fails e CursorAll
              then ((StatusInternalServerError, error ''Error al procesar tareas''),
                    logCall todos CursorAll s1)
              else ((StatusOK, todosBody (map toTodoResponse cursor)),
                    logCall todos CursorAll s1)))"

definition createTodo :: "strings \<Rightarrow> env \<Rightarrow> createInput option \<Rightarrow>
    store \<Rightarrow> response \<times> store" where
  "createTodo lib e bound s =
     (case bound of
        None \<Rightarrow> ((StatusBadRequest, error datosInvalidos), s)
      | Some i \<Rightarrow>
          (let input = \<lparr>createInput.Email = normalizeEmail lib (createInput.Email i),
                        Title = normalizeText lib (createInput.Title i)\<rparr>
           in if createInput.Email input = [] \<or> createInput.Title input = []
              then ((StatusBadRequest, error emailTituloRequeridos), s)
              else
                (let todo = \<lparr>Todo.ID = 0,
                             Email = createInput.Email input,
                             Title = createInput.Title input,
                             Completed = False,
                             CreatedAt = Now e\<rparr>;
                     (res, s1) = todosInsertOne e todo s
                 in (case res of
                       Inl err \<Rightarrow> ((StatusInternalServerError, error
                           ''Error al crear tarea''), s1)
                     | Inr insertedID \<Rightarrow>
                         ((StatusCreated,
                           todoBody (toTodoResponse
                               (todo\<lparr>Todo.ID := insertedID\<rparr>))), s1)))))"

text \<open>
  In \<open>updateTodo\<close> the update document \<open>bson.M\<close> is the pair of its two possible entries,
  and it is empty when both are absent.
\<close>

definition updateTodo :: "strings \<Rightarrow> env \<Rightarrow> string \<Rightarrow> updateInput
    option \<Rightarrow> store \<Rightarrow> response \<times> store" where
  "updateTodo lib e idHex bound s =
     (case ObjectIDFromHex idHex of
        None \<Rightarrow> ((StatusBadRequest, error idInvalido), s)
      | Some objID \<Rightarrow>
          (case bound of
             None \<Rightarrow> ((StatusBadRequest, error datosInvalidos), s)
           | Some input \<Rightarrow>
               if (case updateInput.Title input of
                     None \<Rightarrow> False
                   | Some title \<Rightarrow> normalizeText lib title = [])
               then ((StatusBadRequest, error tituloVacio), s)
               else
                 (let update = (map_option (normalizeText lib) (updateInput.Title input),
                                updateInput.Completed input)
                  in if fst update = None \<and> snd update = None
                     then ((StatusBadRequest, error ''Nada para actualizar''), s)
                     else
                       (let (res, s1) = todosUpdateByID e objID update s
                        in (case res of
                              Inl err \<Rightarrow>
                                ((StatusInternalServerError, error ''Error al actualizar tarea''),
                                 s1)
                            | Inr _ \<Rightarrow>
                                (let (res2, s2) = todosFindOne e objID s1
                                 in (case res2 of
                                       Inl err2 \<Rightarrow>
                                         ((StatusInternalServerError,
                                           error ''Error al leer tarea actualizada''), s2)
                                     | Inr updated \<Rightarrow>
                                         ((StatusOK, todoBody (toTodoResponse updated)),
                                          s2))))))))"

definition deleteTodo :: "env \<Rightarrow> string \<Rightarrow> store \<Rightarrow> response
    \<times> store" where
  "deleteTodo e idHex s =
     (case ObjectIDFromHex idHex of
        None \<Rightarrow> ((StatusBadRequest, error idInvalido), s)
      | Some objID \<Rightarrow>
          (let (res, s1) = todosDeleteOne e objID s
           in (case res of
                 Inl err \<Rightarrow> ((StatusInternalServerError, error
                     ''Error al eliminar tarea''), s1)
               | Inr _ \<Rightarrow> ((StatusOK, message ''Tarea eliminada''), s1))))"

definition clearTodos :: "env \<Rightarrow> string \<Rightarrow> store \<Rightarrow> response
    \<times> store" where
  "clearTodos e email s =
     (let flt = (if email \<noteq> [] then Some email else None);
          (res, s1) = todosDeleteMany e flt s
      in (case res of
            Inl err \<Rightarrow> ((StatusInternalServerError, error ''Error al limpiar tareas''),
                s1)
          | Inr _ \<Rightarrow> ((StatusOK, message ''Tareas eliminadas''), s1)))"

section \<open>Sequences of handler invocations\<close>

text \<open>
  A step of a run is the invocation of one handler with the values it reads from the
  request: the bound body, the path parameter \<open>id\<close>, the query parameter \<open>email\<close>. The
  router of main.go makes only some of these invocations (it never passes an empty \<open>id\<close>,
  for instance), so what holds for every sequence of invocations holds for every sequence of
  requests that the router dispatches. The invocations of a run are served one after the
  other, each in its own environment.
\<close>

datatype call =
    RegisterUser "User option"
  | LoginUser "User option"
  | HealthHandler
  | ListUsers
  | ClearUsers
  | ListTodos string
  | CreateTodo "createInput option"
  | UpdateTodo string "updateInput option"
  | DeleteTodo string
  | ClearTodos string

fun invoke :: "strings \<Rightarrow> env \<Rightarrow> call \<Rightarrow> store \<Rightarrow>
    response \<times> store" where
  "invoke lib e (RegisterUser b) s = registerUser lib e b s"
| "invoke lib e (LoginUser b) s = loginUser lib e b s"
| "invoke lib e HealthHandler s = healthHandler e s"
| "invoke lib e ListUsers s = listUsers e s"
| "invoke lib e ClearUsers s = clearUsers e s"
| "invoke lib e (ListTodos email) s = listTodos lib e email s"
| "invoke lib e (CreateTodo b) s = createTodo lib e b s"
| "invoke lib e (UpdateTodo idHex b) s = updateTodo lib e idHex b s"
| "invoke lib e (DeleteTodo idHex) s = deleteTodo e idHex s"
| "invoke lib e (ClearTodos email) s = clearTodos e email s"

fun run :: "strings \<Rightarrow>
    (env \<times> call) list \<Rightarrow> store \<Rightarrow> store" where
  "run lib [] s = s"
| "run lib ((e, c) # cs) s = run lib cs (snd (invoke lib e c s))"

section \<open>Examples: a library for ASCII strings, environments and stores\<close>

text \<open>
  The examples need a library that computes. On a string of ASCII bytes \<open>strings.TrimSpace\<close>
  removes the bytes 0x09 to 0x0D and 0x20 from both ends and \<open>strings.ToLower\<close> maps the
  letters A to Z to a to z; \<open>asciiStrings\<close> does this, and every string of the
      examples is
  ASCII. It is used in the examples only.
\<close>

definition asciiSpace :: "char \<Rightarrow> bool" where
  "asciiSpace c = (c \<in> set [CHR 0x09, CHR 0x0A, CHR 0x0B, CHR 0x0C, CHR 0x0D, CHR 0x20])"

definition asciiTrimSpace :: "string \<Rightarrow> string" where
  "asciiTrimSpace s = rev (dropWhile asciiSpace (rev (dropWhile asciiSpace s)))"

definition asciiLowerChar :: "char \<Rightarrow> char" where
  "asciiLowerChar c =
     (let n = (of_char c :: nat) in if 65 \<le> n \<and> n \<le> 90 then char_of (n + 32) else c)"

definition asciiToLower :: "string \<Rightarrow> string" where
  "asciiToLower s = map asciiLowerChar s"

definition asciiStrings :: strings where
  "asciiStrings = \<lparr>TrimSpace = asciiTrimSpace, ToLower = asciiToLower\<rparr>"

text \<open>
  \<open>exampleEnv\<close> is an environment in which no driver call fails; in \<open>lookupFailsEnv\<close> the
  call \<open>FindOne\<close> returns an error that is not \<open>ErrNoDocuments\<close> (a timeout, say).
\<close>

definition exampleEnv :: env where
  "exampleEnv =
     \<lparr>fails = (\<lambda>_. False), NewObjectID = 0x507f1f77bcf86cd799439011,
      Now = 1700000000123456789\<rparr>"

definition lookupFailsEnv :: env where
  "lookupFailsEnv =
     \<lparr>fails = (\<lambda>op. op = FindOne), NewObjectID = 0x507f1f77bcf86cd799439012,
      Now = 1700000001123456789\<rparr>"

definition emptyStore :: store where
  "emptyStore = \<lparr>userCollection = [], todoCollection = [], calls = []\<rparr>"

definition oneUserStore :: store where
  "oneUserStore =
     \<lparr>userCollection = [\<lparr>User.Email = ''u@x.com'', Password = ''pw1''\<rparr>],
      todoCollection = [], calls = []\<rparr>"

definition twoUserStore :: store where
  "twoUserStore =
     \<lparr>userCollection = [\<lparr>User.Email = ''u@x.com'', Password = ''pw1''\<rparr>,
                        \<lparr>User.Email = ''u@x.com'', Password = ''pw2''\<rparr>],
      todoCollection = [], calls = []\<rparr>"

definition oneTodoStore :: store where
  "oneTodoStore =
     \<lparr>userCollection = [\<lparr>User.Email = ''u@x.com'', Password = ''pw1''\<rparr>],
      todoCollection =
        [\<lparr>Todo.ID = 0x507f1f77bcf86cd799439011, Email = ''u@x.com'', Title = ''wash car'',
          Completed = False, CreatedAt = 1700000000123000000\<rparr>],
      calls = []\<rparr>"

definition twoTodoStore :: store where
  "twoTodoStore =
     \<lparr>userCollection = [\<lparr>User.Email = ''u@x.com'', Password = ''pw1''\<rparr>],
      todoCollection =
        [\<lparr>Todo.ID = 0x507f1f77bcf86cd799439011, Email = ''u@x.com'', Title = ''wash car'',
          Completed = False, CreatedAt = 1700000000123000000\<rparr>,
         \<lparr>Todo.ID = 0x507f1f77bcf86cd799439012, Email = ''v@x.com'', Title = ''buy milk'',
          Completed = True, CreatedAt = 1700000001123000000\<rparr>],
      calls = []\<rparr>"

definition blankOwnerStore :: store where
  "blankOwnerStore =
     \<lparr>userCollection = [],
      todoCollection =
        [\<lparr>Todo.ID = 0x507f1f77bcf86cd799439011, Email = ''u@x.com'', Title = ''wash car'',
          Completed = False, CreatedAt = 1700000000123000000\<rparr>,
         \<lparr>Todo.ID = 0x507f1f77bcf86cd799439012, Email = [], Title = ''buy milk'',
          Completed = True, CreatedAt = 1700000001123000000\<rparr>],
      calls = []\<rparr>"

definition laterEnv :: env where
  "laterEnv =
     \<lparr>fails = (\<lambda>_. False), NewObjectID = 0x507f1f77bcf86cd799439013,
      Now = 1700000002123456789\<rparr>"

definition upperUserStore :: store where
  "upperUserStore =
     \<lparr>userCollection = [\<lparr>User.Email = ''U@X.COM'', Password = ''pw1''\<rparr>],
      todoCollection = [], calls = []\<rparr>"

section \<open>Auxiliary facts\<close>

lemma find_distinct_key:
  "distinct (map f xs) \<Longrightarrow> x \<in> set xs \<Longrightarrow> find
      (\<lambda>y. f y = f x) xs = Some x"
  by (induction xs) (auto simp: image_iff)

lemma normalizeText_eq: "normalizeText lib = TrimSpace lib"
  by (rule ext) (simp add: normalizeText_def)

text \<open>The example library: its two functions, and the normal forms used in the examples.\<close>

lemma asciiStrings_sel:
  "TrimSpace asciiStrings = asciiTrimSpace" "ToLower asciiStrings = asciiToLower"
  by (simp_all add: asciiStrings_def)

lemma ev_email_upper: "ToLower asciiStrings (TrimSpace asciiStrings ''U@X.COM '') = ''u@x.com''"
  unfolding asciiStrings_sel by code_simp
lemma ev_email_ux: "ToLower asciiStrings (TrimSpace asciiStrings ''u@x.com'') = ''u@x.com''"
  unfolding asciiStrings_sel by code_simp
lemma ev_email_vx: "ToLower asciiStrings (TrimSpace asciiStrings ''v@x.com'') = ''v@x.com''"
  unfolding asciiStrings_sel by code_simp
lemma ev_email_blank: "ToLower asciiStrings (TrimSpace asciiStrings ''   '') = []"
  unfolding asciiStrings_sel by code_simp
lemma ev_text_pw1_padded: "TrimSpace asciiStrings '' pw1'' = ''pw1''"
  unfolding asciiStrings_sel by code_simp
lemma ev_text_pw1: "TrimSpace asciiStrings ''pw1'' = ''pw1''"
  unfolding asciiStrings_sel by code_simp
lemma ev_text_pw2: "TrimSpace asciiStrings ''pw2'' = ''pw2''"
  unfolding asciiStrings_sel by code_simp
lemma ev_text_PW1: "TrimSpace asciiStrings ''PW1'' = ''PW1''"
  unfolding asciiStrings_sel by code_simp
lemma ev_text_blank: "TrimSpace asciiStrings ''   '' = []"
  unfolding asciiStrings_sel by code_simp

lemma ev_lower_nil: "ToLower asciiStrings [] = []"
  unfolding asciiStrings_sel by code_simp

lemma ev_email_upper_raw: "ToLower asciiStrings (TrimSpace asciiStrings ''U@X.COM'') = ''u@x.com''"
  unfolding asciiStrings_sel by code_simp

text \<open>The example library is idempotent: a normalised email is its own normal form.\<close>

lemma asciiSpace_iff: "asciiSpace c = ((of_char c :: nat) \<in> {9, 10, 11, 12, 13, 32})"
proof -
  have ceq: "\<And>d. (c = d) = ((of_char c :: nat) = of_char d)" by simp
  show ?thesis unfolding asciiSpace_def by (simp add: ceq)
qed

lemma asciiSpace_asciiLowerChar: "asciiSpace (asciiLowerChar c) = asciiSpace c"
proof (cases "65 \<le> (of_char c :: nat) \<and> (of_char c :: nat) \<le> 90")
  case True
  then have "(of_char (asciiLowerChar c) :: nat) = of_char c + 32"
    by (simp add: asciiLowerChar_def Let_def)
  with True show ?thesis by (simp add: asciiSpace_iff)
next
  case False
  then show ?thesis by (auto simp add: asciiLowerChar_def Let_def)
qed

lemma asciiLowerChar_other:
  "\<not> (65 \<le> (of_char d :: nat)
      \<and> (of_char d :: nat) \<le> 90) \<Longrightarrow> asciiLowerChar d = d"
  by (auto simp add: asciiLowerChar_def Let_def)

lemma asciiLowerChar_idem: "asciiLowerChar (asciiLowerChar c) = asciiLowerChar c"
proof (cases "65 \<le> (of_char c :: nat) \<and> (of_char c :: nat) \<le> 90")
  case True
  then have "(of_char (asciiLowerChar c) :: nat) = of_char c + 32"
    by (simp add: asciiLowerChar_def Let_def)
  with True have "\<not> (65 \<le> (of_char (asciiLowerChar c) :: nat)
      \<and> (of_char (asciiLowerChar c) :: nat) \<le> 90)"
    by simp
  then show ?thesis
    by (rule asciiLowerChar_other)
next
  case False
  then show ?thesis by (simp add: asciiLowerChar_other)
qed

lemma asciiToLower_asciiTrimSpace: "asciiToLower (asciiTrimSpace s) = asciiTrimSpace
    (asciiToLower s)"
proof -
  have d: "\<And>xs. dropWhile asciiSpace (map asciiLowerChar xs)
      = map asciiLowerChar (dropWhile asciiSpace xs)"
    by (simp add: dropWhile_map comp_def asciiSpace_asciiLowerChar)
  show ?thesis
    by (simp add: asciiToLower_def asciiTrimSpace_def rev_map d)
qed

lemma asciiTrimSpace_idem: "asciiTrimSpace (asciiTrimSpace s) = asciiTrimSpace s"
proof -
  let ?a = "dropWhile asciiSpace s"
  let ?b = "dropWhile asciiSpace (rev ?a)"
  have "rev ?a = takeWhile asciiSpace (rev ?a) @ ?b"
    by simp
  then have a: "?a = rev ?b @ rev (takeWhile asciiSpace (rev ?a))"
    by (metis rev_append rev_rev_ident)
  have front: "dropWhile asciiSpace (rev ?b) = rev ?b"
  proof (cases "rev ?b = []")
    case True
    show ?thesis by (simp only: True dropWhile.simps)
  next
    case False
    then have "hd (rev ?b) = hd ?a"
      using a by (metis hd_append2)
    moreover have "?a \<noteq> []"
      using a False by (metis Nil_is_append_conv)
    then have "\<not> asciiSpace (hd ?a)"
      by (rule hd_dropWhile)
    ultimately show ?thesis
      using False by (simp add: dropWhile_eq_self_iff)
  qed
  have "asciiTrimSpace (rev ?b) = rev (dropWhile asciiSpace (rev (rev ?b)))"
    unfolding asciiTrimSpace_def [of "rev ?b"] front ..
  then have "asciiTrimSpace (rev ?b) = rev ?b"
    by simp
  then show ?thesis
    by (simp add: asciiTrimSpace_def [of s])
qed

lemma asciiStrings_idem:
  "ToLower asciiStrings (TrimSpace asciiStrings (ToLower asciiStrings (TrimSpace asciiStrings x)))
     = ToLower asciiStrings (TrimSpace asciiStrings x)"
proof -
  have "asciiToLower (asciiTrimSpace (asciiToLower (asciiTrimSpace x)))
      = asciiToLower (asciiToLower (asciiTrimSpace (asciiTrimSpace x)))"
    by (simp add: asciiToLower_asciiTrimSpace)
  also have "\<dots> = asciiToLower (asciiTrimSpace x)"
    by (simp add: asciiTrimSpace_idem asciiToLower_def asciiLowerChar_idem)
  finally show ?thesis by (simp add: asciiStrings_sel)
qed

section \<open>Login\<close>

lemma loginUser_valid:
  assumes "ToLower lib (TrimSpace lib E) \<noteq> []" "TrimSpace lib P \<noteq>
      []" "\<not> fails e FindOne"
  shows "fst (loginUser lib e (Some \<lparr>User.Email = E, Password = P\<rparr>) s) =
     (case find (\<lambda>u. User.Email u = ToLower lib (TrimSpace lib E)) (userCollection s) of
        None \<Rightarrow> (401, error ''Usuario no encontrado'')
      | Some u \<Rightarrow> if Password u = TrimSpace lib P then (200, message ''Login exitoso'')
                  else (401, error ''Password incorrecto''))"
  using assms
  by (simp add: loginUser_def normalizeEmail_def normalizeText_def usersFindOne_def
      StatusUnauthorized_def StatusOK_def
      split: option.splits)

lemma loginUser_users: "userCollection (snd (loginUser lib e b s)) = userCollection s"
  by (simp add: loginUser_def normalizeEmail_def normalizeText_def usersFindOne_def logCall_def
      Let_def split: option.splits sum.splits)

text \<open>
  Claim C1, as amended. In a store with at most one User per email: a login whose email is
  empty after normalisation or whose password is empty after trimming is rejected with status
  400 before any lookup, the store untouched. Otherwise, when the lookup itself completes, the
  login answers 200 "Login exitoso" if and only if some stored User has the normalised email
  and exactly the trimmed password; it answers 401 "Usuario no encontrado" when no stored User
  has the normalised email, and 401 "Password incorrecto" when that User's password differs.
  Two emails whose trimmed forms have the same lower-casing give the same answer, while
  passwords are compared byte for byte. A login never changes the Users collection. Trimming
  and lower-casing are the library's, whatever they do.
\<close>

theorem loginUser_outcome:
  assumes "distinct (map User.Email (userCollection s))"
  shows "(ToLower lib (TrimSpace lib E) = [] \<or> TrimSpace lib P = [] \<longrightarrow>
            loginUser lib e (Some \<lparr>User.Email = E, Password = P\<rparr>) s
              = ((400, error emailPasswordRequeridos), s))
       \<and> (ToLower lib (TrimSpace lib E) \<noteq> [] \<and> TrimSpace lib P \<noteq> []
           \<and> \<not> fails e FindOne \<longrightarrow>
            ((fst (loginUser lib e (Some \<lparr>User.Email = E, Password = P\<rparr>) s)
                = (200, message ''Login exitoso''))
              = (\<exists>u \<in> set (userCollection s).
                   User.Email u = ToLower lib (TrimSpace lib E)
                       \<and> Password u = TrimSpace lib P))
          \<and> ((\<forall>u \<in> set (userCollection s). User.Email u \<noteq> ToLower lib
              (TrimSpace lib E)) \<longrightarrow>
                fst (loginUser lib e (Some \<lparr>User.Email = E, Password = P\<rparr>) s)
                  = (401, error ''Usuario no encontrado''))
          \<and> ((\<exists>u \<in> set (userCollection s).
                   User.Email u = ToLower lib (TrimSpace lib E)
                       \<and> Password u \<noteq> TrimSpace lib P) \<longrightarrow>
                fst (loginUser lib e (Some \<lparr>User.Email = E, Password = P\<rparr>) s)
                  = (401, error ''Password incorrecto'')))
       \<and> (\<forall>E'. ToLower lib (TrimSpace lib E') = ToLower lib
           (TrimSpace lib E) \<longrightarrow>
            loginUser lib e (Some \<lparr>User.Email = E', Password = P\<rparr>) s
              = loginUser lib e (Some \<lparr>User.Email = E, Password = P\<rparr>) s)
       \<and> userCollection (snd (loginUser lib e
           (Some \<lparr>User.Email = E, Password = P\<rparr>) s))
            = userCollection s"
proof (intro conjI impI allI)
  assume "ToLower lib (TrimSpace lib E) = [] \<or> TrimSpace lib P = []"
  then show "loginUser lib e (Some \<lparr>User.Email = E, Password = P\<rparr>) s
              = ((400, error emailPasswordRequeridos), s)"
    by (auto simp: loginUser_def normalizeEmail_def normalizeText_def StatusBadRequest_def)
next
  assume v: "ToLower lib (TrimSpace lib E) \<noteq> [] \<and> TrimSpace lib P \<noteq> []
      \<and> \<not> fails e FindOne"
  let ?r = "fst (loginUser lib e (Some \<lparr>User.Email = E, Password = P\<rparr>) s)"
  have r: "?r = (case find (\<lambda>u. User.Email u = ToLower lib (TrimSpace lib E))
      (userCollection s) of
        None \<Rightarrow> (401, error ''Usuario no encontrado'')
      | Some u \<Rightarrow> if Password u = TrimSpace lib P then (200, message ''Login exitoso'')
                  else (401, error ''Password incorrecto''))"
    using v by (simp add: loginUser_valid)
  have uniq: "\<And>u. u \<in> set (userCollection s) \<Longrightarrow> User.Email u = ToLower lib
      (TrimSpace lib E) \<Longrightarrow>
      find (\<lambda>y. User.Email y = ToLower lib (TrimSpace lib E)) (userCollection s) = Some u"
    using find_distinct_key [OF assms] by metis
  show "(?r = (200, message ''Login exitoso''))
      = (\<exists>u \<in> set (userCollection s).
           User.Email u = ToLower lib (TrimSpace lib E) \<and> Password u = TrimSpace lib P)"
  proof
    assume "?r = (200, message ''Login exitoso'')"
    then obtain u where "find (\<lambda>u. User.Email u = ToLower lib (TrimSpace lib E))
        (userCollection s) = Some u"
      "Password u = TrimSpace lib P"
      unfolding r by (auto split: option.splits if_splits)
    then show "\<exists>u \<in> set (userCollection s).
           User.Email u = ToLower lib (TrimSpace lib E) \<and> Password u = TrimSpace lib P"
      by (auto simp: find_Some_iff)
  next
    assume "\<exists>u \<in> set (userCollection s).
           User.Email u = ToLower lib (TrimSpace lib E) \<and> Password u = TrimSpace lib P"
    then show "?r = (200, message ''Login exitoso'')"
      unfolding r using uniq by auto
  qed
  show "?r = (401, error ''Usuario no encontrado'')"
    if "\<forall>u \<in> set (userCollection s). User.Email u \<noteq> ToLower lib
        (TrimSpace lib E)"
  proof -
    have "find (\<lambda>u. User.Email u = ToLower lib (TrimSpace lib E)) (userCollection s) = None"
      using that by (simp add: find_None_iff)
    then show ?thesis unfolding r by simp
  qed
  show "?r = (401, error ''Password incorrecto'')"
    if "\<exists>u \<in> set (userCollection s).
          User.Email u = ToLower lib (TrimSpace lib E) \<and> Password u \<noteq> TrimSpace lib P"
    using that unfolding r using uniq by auto
next
  fix E' assume "ToLower lib (TrimSpace lib E') = ToLower lib (TrimSpace lib E)"
  then show "loginUser lib e (Some \<lparr>User.Email = E', Password = P\<rparr>) s
              = loginUser lib e (Some \<lparr>User.Email = E, Password = P\<rparr>) s"
    by (simp add: loginUser_def normalizeEmail_def normalizeText_def)
next
  show "userCollection (snd (loginUser lib e (Some \<lparr>User.Email = E, Password = P\<rparr>) s))
            = userCollection s"
    by (rule loginUser_users)
qed

text \<open>
  The theorem at the store holding the one User (u@x.com, pw1): the padded upper-case email
  with the padded password logs in, the upper-case password does not, an unknown email is not
  found, a blank password is rejected, and two spellings of the email answer alike.
\<close>

theorem loginUser_outcome_witness:
  "distinct (map User.Email (userCollection oneUserStore))
   \<and> fst (loginUser asciiStrings exampleEnv
       (Some \<lparr>User.Email = ''U@X.COM '', Password = '' pw1''\<rparr>) oneUserStore)
       = (200, message ''Login exitoso'')
   \<and> fst (loginUser asciiStrings exampleEnv
       (Some \<lparr>User.Email = ''u@x.com'', Password = ''PW1''\<rparr>) oneUserStore)
       = (401, error ''Password incorrecto'')
   \<and> fst (loginUser asciiStrings exampleEnv
       (Some \<lparr>User.Email = ''v@x.com'', Password = ''pw1''\<rparr>) oneUserStore)
       = (401, error ''Usuario no encontrado'')
   \<and> loginUser asciiStrings exampleEnv
       (Some \<lparr>User.Email = ''u@x.com'', Password = ''   ''\<rparr>) oneUserStore
       = ((400, error emailPasswordRequeridos), oneUserStore)
   \<and> loginUser asciiStrings exampleEnv
       (Some \<lparr>User.Email = ''U@x.Com'', Password = ''pw1''\<rparr>) oneUserStore
       = loginUser asciiStrings exampleEnv
           (Some \<lparr>User.Email = ''u@X.com'', Password = ''pw1''\<rparr>) oneUserStore"
proof -
  have d: "distinct (map User.Email (userCollection oneUserStore))"
    by (simp add: oneUserStore_def)
  have u: "userCollection oneUserStore =
      [\<lparr>User.Email = ''u@x.com'', Password = ''pw1''\<rparr>]"
    by (simp add: oneUserStore_def)
  have h: "\<not> fails exampleEnv FindOne"
    by (simp add: exampleEnv_def)
  have 1: "fst (loginUser asciiStrings exampleEnv
      (Some \<lparr>User.Email = ''U@X.COM '', Password = '' pw1''\<rparr>) oneUserStore)
       = (200, message ''Login exitoso'')"
    using loginUser_outcome [OF d, where lib = asciiStrings and E = "''U@X.COM ''"
        and P = "'' pw1''" and e = exampleEnv,
        THEN conjunct2, THEN conjunct1] h
    by (simp add: ev_email_upper ev_text_pw1_padded u)
  have 2: "fst (loginUser asciiStrings exampleEnv
      (Some \<lparr>User.Email = ''u@x.com'', Password = ''PW1''\<rparr>) oneUserStore)
       = (401, error ''Password incorrecto'')"
    using loginUser_outcome [OF d, where lib = asciiStrings and E = "''u@x.com''"
        and P = "''PW1''" and e = exampleEnv,
        THEN conjunct2, THEN conjunct1] h
    by (simp add: ev_email_ux ev_text_PW1 u)
  have 3: "fst (loginUser asciiStrings exampleEnv
      (Some \<lparr>User.Email = ''v@x.com'', Password = ''pw1''\<rparr>) oneUserStore)
       = (401, error ''Usuario no encontrado'')"
    using loginUser_outcome [OF d, where lib = asciiStrings and E = "''v@x.com''"
        and P = "''pw1''" and e = exampleEnv,
        THEN conjunct2, THEN conjunct1] h
    by (simp add: ev_email_vx ev_text_pw1 u)
  have 4: "loginUser asciiStrings exampleEnv
      (Some \<lparr>User.Email = ''u@x.com'', Password = ''   ''\<rparr>) oneUserStore
       = ((400, error emailPasswordRequeridos), oneUserStore)"
    using loginUser_outcome [OF d, where lib = asciiStrings and E = "''u@x.com''"
        and P = "''   ''" and e = exampleEnv, THEN conjunct1]
    by (simp add: ev_email_ux ev_text_blank)
  have l: "ToLower asciiStrings (TrimSpace asciiStrings ''U@x.Com'')
      = ToLower asciiStrings (TrimSpace asciiStrings ''u@X.com'')"
    unfolding asciiStrings_sel by code_simp
  have 5: "loginUser asciiStrings exampleEnv
      (Some \<lparr>User.Email = ''U@x.Com'', Password = ''pw1''\<rparr>) oneUserStore
       = loginUser asciiStrings exampleEnv
           (Some \<lparr>User.Email = ''u@X.com'', Password = ''pw1''\<rparr>) oneUserStore"
    using loginUser_outcome [OF d, where lib = asciiStrings and E = "''u@X.com''"
        and P = "''pw1''" and e = exampleEnv,
        THEN conjunct2, THEN conjunct2, THEN conjunct1, THEN spec, of "''U@x.Com''"] l
    by blast
  from d 1 2 3 4 5 show ?thesis by blast
qed

text \<open>
  Claim C1 as it is written fails. The User (u@x.com, pw1) is stored and the password of
  three spaces differs from pw1 after trimming, yet the answer is the validation failure
  400, not 401 "Password incorrecto"; and for the blank email, which no stored User has, the
  answer is 400 again, not 401 "Usuario no encontrado". In the store that holds u@x.com
  twice, with pw1 and with pw2, the login with pw2 is refused although a User with that
  email and password is stored: the lookup returns the first. And when the lookup itself
  fails, the login of the stored User with its own password is answered "Usuario no
  encontrado".
\<close>

theorem loginUser_as_stated_counterexample:
  "userCollection oneUserStore = [\<lparr>User.Email = ''u@x.com'', Password = ''pw1''\<rparr>]
   \<and> ToLower asciiStrings (TrimSpace asciiStrings ''u@x.com'') = ''u@x.com''
   \<and> TrimSpace asciiStrings ''   '' \<noteq> ''pw1''
   \<and> fst (loginUser asciiStrings exampleEnv
       (Some \<lparr>User.Email = ''u@x.com'', Password = ''   ''\<rparr>) oneUserStore)
       = (400, error emailPasswordRequeridos)
   \<and> fst (loginUser asciiStrings exampleEnv
       (Some \<lparr>User.Email = ''u@x.com'', Password = ''   ''\<rparr>) oneUserStore)
       \<noteq> (401, error ''Password incorrecto'')
   \<and> ToLower asciiStrings (TrimSpace asciiStrings ''   '') \<noteq> ''u@x.com''
   \<and> fst (loginUser asciiStrings exampleEnv
       (Some \<lparr>User.Email = ''   '', Password = ''pw1''\<rparr>) oneUserStore)
       = (400, error emailPasswordRequeridos)
   \<and> fst (loginUser asciiStrings exampleEnv
       (Some \<lparr>User.Email = ''   '', Password = ''pw1''\<rparr>) oneUserStore)
       \<noteq> (401, error ''Usuario no encontrado'')
   \<and> \<lparr>User.Email = ''u@x.com'', Password = ''pw2''\<rparr> \<in> set
       (userCollection twoUserStore)
   \<and> TrimSpace asciiStrings ''pw2'' = ''pw2''
   \<and> fst (loginUser asciiStrings exampleEnv
       (Some \<lparr>User.Email = ''u@x.com'', Password = ''pw2''\<rparr>) twoUserStore)
       = (401, error ''Password incorrecto'')
   \<and> TrimSpace asciiStrings ''pw1'' = ''pw1''
   \<and> fst (loginUser asciiStrings lookupFailsEnv
       (Some \<lparr>User.Email = ''u@x.com'', Password = ''pw1''\<rparr>)
           oneUserStore)
       = (401, error ''Usuario no encontrado'')"
  by (simp add: loginUser_def normalizeEmail_def normalizeText_def usersFindOne_def logCall_def
      ev_email_ux ev_email_blank
      ev_lower_nil ev_text_blank ev_text_pw1 ev_text_pw2 oneUserStore_def
      twoUserStore_def exampleEnv_def lookupFailsEnv_def StatusBadRequest_def
      StatusUnauthorized_def)

section \<open>Registration\<close>

lemma distinct_key_once:
  "distinct (map f xs) \<Longrightarrow> k \<in> f ` set xs \<Longrightarrow> length (filter
      (\<lambda>u. f u = k) xs) = 1"
proof (induction xs)
  case Nil
  then show ?case by simp
next
  case (Cons x xs)
  show ?case
  proof (cases "f x = k")
    case True
    with Cons.prems have "\<forall>u \<in> set xs. f u \<noteq> k" by (auto simp: image_iff)
    then have "filter (\<lambda>u. f u = k) xs = []" by (simp add: filter_empty_conv)
    with True show ?thesis by simp
  next
    case False
    with Cons show ?thesis by auto
  qed
qed

lemma registerUser_valid:
  assumes "ToLower lib (TrimSpace lib E) \<noteq> []" "TrimSpace lib P \<noteq>
      []" "\<not> fails e FindOne"
  shows "registerUser lib e (Some \<lparr>User.Email = E, Password = P\<rparr>) s =
     (if ToLower lib (TrimSpace lib E) \<in> User.Email ` set (userCollection s)
      then ((409, error ''Usuario ya existe''), logCall users FindOne s)
      else if fails e InsertOne
      then ((500, error ''Error al registrar''), logCall users InsertOne (logCall users FindOne s))
      else ((201, message usuarioRegistrado),
            logCall users InsertOne
              ((logCall users FindOne s)
                 \<lparr>userCollection := userCollection s @
                     [\<lparr>User.Email = ToLower lib (TrimSpace lib E),
                       Password = TrimSpace lib P\<rparr>]\<rparr>)))"
proof (cases "find (\<lambda>u. User.Email u = ToLower lib (TrimSpace lib E)) (userCollection s)")
  case None
  then have "ToLower lib (TrimSpace lib E) \<notin> User.Email ` set (userCollection s)"
    by (auto simp: find_None_iff)
  with None assms show ?thesis
    by (simp add: registerUser_def normalizeEmail_def normalizeText_def usersFindOne_def
        usersInsertOne_def logCall_def StatusInternalServerError_def StatusCreated_def)
next
  case (Some u)
  then have "ToLower lib (TrimSpace lib E) \<in> User.Email ` set (userCollection s)"
    by (auto simp: find_Some_iff image_iff) (metis nth_mem)
  with Some assms show ?thesis
    by (simp add: registerUser_def normalizeEmail_def normalizeText_def usersFindOne_def
        StatusConflict_def)
qed

lemma registerUser_users_cases:
  "userCollection (snd (registerUser lib e b s)) = userCollection s
   \<or> (\<exists>u. b = Some u \<and> ToLower lib (TrimSpace lib (User.Email u)) \<noteq> []
       \<and>
        userCollection (snd (registerUser lib e b s)) = userCollection s @
          [\<lparr>User.Email = ToLower lib (TrimSpace lib (User.Email u)),
            Password = TrimSpace lib (Password u)\<rparr>]
        \<and> (fails e FindOne
            \<or> ToLower lib (TrimSpace lib (User.Email u)) \<notin> User.Email ` set
                (userCollection s)))"
  by (auto simp: registerUser_def normalizeEmail_def normalizeText_def usersFindOne_def
      usersInsertOne_def logCall_def Let_def find_None_iff
      split: option.splits sum.splits if_splits)

lemma registerUser_normal_distinct:
  assumes "\<not> fails e FindOne"
    and "\<forall>u \<in> set (userCollection s). \<exists>x. User.Email u = ToLower lib
        (TrimSpace lib x)"
    and "distinct (map User.Email (userCollection s))"
  shows "(\<forall>u \<in> set (userCollection (snd (registerUser lib e b s))).
             \<exists>x. User.Email u = ToLower lib (TrimSpace lib x))
         \<and> distinct (map User.Email (userCollection (snd (registerUser lib e b s))))"
proof -
  let ?us' = "userCollection (snd (registerUser lib e b s))"
  from registerUser_users_cases [where lib = lib and e = e and b = b and s = s]
  show ?thesis
  proof (elim disjE exE conjE)
    assume "?us' = userCollection s"
    with assms show ?thesis by simp
  next
    fix u
    assume app: "?us' = userCollection s @
          [\<lparr>User.Email = ToLower lib (TrimSpace lib (User.Email u)),
            Password = TrimSpace lib (Password u)\<rparr>]"
      and new: "ToLower lib (TrimSpace lib (User.Email u))
                  \<notin> User.Email ` set (userCollection s)"
    have "\<exists>x. ToLower lib (TrimSpace lib (User.Email u)) = ToLower lib (TrimSpace lib x)"
      by (rule exI [of _ "User.Email u"]) (rule refl)
    with app new assms show ?thesis by auto
  next
    assume "fails e FindOne"
    with assms(1) show ?thesis by simp
  qed
qed

lemma invoke_users_cases:
  "(\<exists>b. c = RegisterUser b) \<or> userCollection (snd (invoke lib e c s)) = userCollection s
    \<or> userCollection (snd (invoke lib e c s)) = []"
  by (cases c)
    (auto simp: loginUser_users healthHandler_def listUsers_def usersFindAll_def clearUsers_def
       usersDeleteMany_def listTodos_def todosFind_def createTodo_def todosInsertOne_def
       updateTodo_def todosUpdateByID_def todosFindOne_def deleteTodo_def todosDeleteOne_def
       clearTodos_def todosDeleteMany_def logCall_def Let_def
       split: option.splits sum.splits if_splits)

lemma invoke_normal_distinct:
  assumes "\<not> fails e FindOne"
    and "\<forall>u \<in> set (userCollection s). \<exists>x. User.Email u = ToLower lib
        (TrimSpace lib x)"
    and "distinct (map User.Email (userCollection s))"
  shows "(\<forall>u \<in> set (userCollection (snd (invoke lib e c s))).
             \<exists>x. User.Email u = ToLower lib (TrimSpace lib x))
         \<and> distinct (map User.Email (userCollection (snd (invoke lib e c s))))"
proof (cases "\<exists>b. c = RegisterUser b")
  case True
  then obtain b where "c = RegisterUser b" ..
  then show ?thesis
    using registerUser_normal_distinct [OF assms] by simp
next
  case False
  then have "userCollection (snd (invoke lib e c s)) = userCollection s
      \<or> userCollection (snd (invoke lib e c s)) = []"
    using invoke_users_cases [where c = c and lib = lib and e = e and s = s] by simp
  then show ?thesis
    using assms(2,3) by auto
qed

lemma run_normal_distinct:
  "\<forall>x \<in> set ops. \<not> fails (fst x) FindOne \<Longrightarrow>
   \<forall>u \<in> set (userCollection s). \<exists>x. User.Email u = ToLower lib
       (TrimSpace lib x) \<Longrightarrow>
   distinct (map User.Email (userCollection s)) \<Longrightarrow>
     (\<forall>u \<in> set (userCollection (run lib ops s)).
         \<exists>x. User.Email u = ToLower lib (TrimSpace lib x))
     \<and> distinct (map User.Email (userCollection (run lib ops s)))"
proof (induction ops arbitrary: s)
  case Nil
  then show ?case by simp
next
  case (Cons x ops)
  obtain e c where x: "x = (e, c)" by (cases x)
  from Cons.prems(1) have h: "\<not> fails e FindOne" by (simp add: x)
  note step = invoke_normal_distinct [OF h Cons.prems(2) Cons.prems(3), of c]
  from Cons.prems(1) have rest: "\<forall>x \<in> set ops. \<not> fails (fst x) FindOne" by simp
  show ?case
    using Cons.IH [OF rest step [THEN conjunct1] step [THEN conjunct2]] by (simp add: x)
qed

lemma normal_fixed:
  assumes "\<forall>x. ToLower lib (TrimSpace lib (ToLower lib (TrimSpace lib x)))
              = ToLower lib (TrimSpace lib x)"
    and "\<forall>u \<in> set us. \<exists>x. User.Email u = ToLower lib (TrimSpace lib x)"
    and "u \<in> set us"
  shows "ToLower lib (TrimSpace lib (User.Email u)) = User.Email u"
  using assms by metis

text \<open>
  Claim C2, as amended. Start from a store in which every stored User email is a normalised
  email (the trimmed and lower-cased form of some string) and no two Users have the same
  email. Let the email registered be non-empty after normalisation and both passwords
  non-empty after trimming. When the lookups of the two registrations and the insert of the
  first complete, the second registration answers 409 "Usuario ya existe" and leaves the
  Users collection as the first left it, and exactly one stored User has the normalised
  email. Moreover every sequence of handler invocations whose \<open>FindOne\<close> calls complete
  keeps the stored emails normalised and pairwise distinct. And when the library's
  normalisation is idempotent, this is the invariant in terms of normal forms: exactly one
  stored User has an email whose normal form is the one registered, and after every such
  sequence the normal forms of the stored emails are pairwise distinct, that is, at most one
  User exists per normalised email. Trimming and lower-casing are the library's, whatever
  they do.
\<close>

theorem registerUser_twice:
  assumes "\<forall>u \<in> set (userCollection s). \<exists>x. User.Email u = ToLower lib
      (TrimSpace lib x)"
    and "distinct (map User.Email (userCollection s))"
  shows "(ToLower lib (TrimSpace lib E) \<noteq> [] \<and> TrimSpace lib P1 \<noteq> []
      \<and> TrimSpace lib P2 \<noteq> []
            \<and> \<not> fails e1 FindOne \<and> \<not> fails e1 InsertOne
                \<and> \<not> fails e2 FindOne \<longrightarrow>
          fst (registerUser lib e2 (Some \<lparr>User.Email = E, Password = P2\<rparr>)
                 (snd (registerUser lib e1 (Some \<lparr>User.Email = E, Password = P1\<rparr>) s)))
            = (409, error ''Usuario ya existe'')
          \<and> userCollection
               (snd (registerUser lib e2 (Some \<lparr>User.Email = E, Password = P2\<rparr>)
                      (snd (registerUser lib e1
                          (Some \<lparr>User.Email = E, Password = P1\<rparr>) s))))
              = userCollection (snd (registerUser lib e1
                  (Some \<lparr>User.Email = E, Password = P1\<rparr>) s))
          \<and> length (filter (\<lambda>u. User.Email u = ToLower lib (TrimSpace lib E))
               (userCollection
                  (snd (registerUser lib e2 (Some \<lparr>User.Email = E, Password = P2\<rparr>)
                         (snd (registerUser lib e1
                             (Some \<lparr>User.Email = E, Password = P1\<rparr>) s))))))
              = 1
          \<and> ((\<forall>x. ToLower lib (TrimSpace lib (ToLower lib (TrimSpace lib x)))
                     = ToLower lib (TrimSpace lib x)) \<longrightarrow>
               length (filter (\<lambda>u. ToLower lib (TrimSpace lib (User.Email u))
                                    = ToLower lib (TrimSpace lib E))
                 (userCollection
                    (snd (registerUser lib e2 (Some \<lparr>User.Email = E, Password = P2\<rparr>)
                           (snd (registerUser lib e1
                               (Some \<lparr>User.Email = E, Password = P1\<rparr>) s))))))
                = 1))
       \<and> (\<forall>ops. (\<forall>x \<in> set ops. \<not> fails
           (fst x) FindOne) \<longrightarrow>
            (\<forall>u \<in> set (userCollection (run lib ops s)).
                \<exists>x. User.Email u = ToLower lib (TrimSpace lib x))
            \<and> distinct (map User.Email (userCollection (run lib ops s)))
            \<and> ((\<forall>x. ToLower lib (TrimSpace lib (ToLower lib (TrimSpace lib x)))
                       = ToLower lib (TrimSpace lib x)) \<longrightarrow>
                 distinct (map (\<lambda>u. ToLower lib (TrimSpace lib (User.Email u)))
                             (userCollection (run lib ops s)))))"
proof (intro conjI impI allI)
  assume v: "ToLower lib (TrimSpace lib E) \<noteq> [] \<and> TrimSpace lib P1 \<noteq> []
      \<and> TrimSpace lib P2 \<noteq> []
            \<and> \<not> fails e1 FindOne \<and> \<not> fails e1 InsertOne
                \<and> \<not> fails e2 FindOne"
  let ?s1 = "snd (registerUser lib e1 (Some \<lparr>User.Email = E, Password = P1\<rparr>) s)"
  let ?r2 = "registerUser lib e2 (Some \<lparr>User.Email = E, Password = P2\<rparr>) ?s1"
  from v have h1: "\<not> fails e1 FindOne" by simp
  have in1: "ToLower lib (TrimSpace lib E) \<in> User.Email ` set (userCollection ?s1)"
    using v by (simp add: registerUser_valid logCall_def)
  note inv1 = registerUser_normal_distinct [OF h1 assms,
      of "Some \<lparr>User.Email = E, Password = P1\<rparr>"]
  have r2: "?r2 = ((409, error ''Usuario ya existe''), logCall users FindOne ?s1)"
    using v in1 by (simp add: registerUser_valid)
  show "fst ?r2 = (409, error ''Usuario ya existe'')"
    by (simp add: r2)
  show u2: "userCollection (snd ?r2) = userCollection ?s1"
    by (simp add: r2 logCall_def)
  have one: "length (filter (\<lambda>u. User.Email u = ToLower lib (TrimSpace lib E))
      (userCollection ?s1)) = 1"
    using inv1 [THEN conjunct2] in1 by (rule distinct_key_once)
  then show "length (filter (\<lambda>u. User.Email u = ToLower lib (TrimSpace lib E))
      (userCollection (snd ?r2))) = 1"
    by (simp only: u2)
  show "length (filter (\<lambda>u. ToLower lib (TrimSpace lib (User.Email u))
                              = ToLower lib (TrimSpace lib E))
      (userCollection (snd ?r2))) = 1"
    if idem: "\<forall>x. ToLower lib (TrimSpace lib (ToLower lib (TrimSpace lib x)))
                = ToLower lib (TrimSpace lib x)"
  proof -
    have eq: "filter (\<lambda>u. ToLower lib (TrimSpace lib (User.Email u))
                            = ToLower lib (TrimSpace lib E))
            (userCollection ?s1)
        = filter (\<lambda>u. User.Email u = ToLower lib (TrimSpace lib E)) (userCollection ?s1)"
      by (rule filter_cong [OF refl]) (simp add: normal_fixed [OF idem inv1 [THEN conjunct1]])
    show ?thesis unfolding u2 eq by (rule one)
  qed
next
  fix ops :: "(env \<times> call) list"
  assume h: "\<forall>x \<in> set ops. \<not> fails (fst x) FindOne"
  note inv = run_normal_distinct [OF h assms]
  show "\<forall>u \<in> set (userCollection (run lib ops s)).
           \<exists>x. User.Email u = ToLower lib (TrimSpace lib x)"
    by (rule inv [THEN conjunct1])
  show "distinct (map User.Email (userCollection (run lib ops s)))"
    by (rule inv [THEN conjunct2])
  show "distinct (map (\<lambda>u. ToLower lib (TrimSpace lib (User.Email u)))
                    (userCollection (run lib ops s)))"
    if idem: "\<forall>x. ToLower lib (TrimSpace lib (ToLower lib (TrimSpace lib x)))
                = ToLower lib (TrimSpace lib x)"
  proof -
    have eq: "map (\<lambda>u. ToLower lib (TrimSpace lib (User.Email u))) (userCollection
        (run lib ops s))
        = map User.Email (userCollection (run lib ops s))"
      by (rule map_cong [OF refl]) (simp add: normal_fixed [OF idem inv [THEN conjunct1]])
    show ?thesis unfolding eq by (rule inv [THEN conjunct2])
  qed
qed

text \<open>
  The theorem at the empty store with the example library, which is idempotent: the same
  padded upper-case email registered twice, and a run of three registrations.
\<close>

theorem registerUser_twice_witness:
  "userCollection emptyStore = []
   \<and> fst (registerUser asciiStrings exampleEnv
             (Some \<lparr>User.Email = ''U@X.COM '', Password = ''pw2''\<rparr>)
             (snd (registerUser asciiStrings exampleEnv
                     (Some \<lparr>User.Email = ''U@X.COM '', Password = '' pw1''\<rparr>)
                         emptyStore)))
       = (409, error ''Usuario ya existe'')
   \<and> length (filter (\<lambda>u. User.Email u = ''u@x.com'')
        (userCollection
          (snd (registerUser asciiStrings exampleEnv
                  (Some \<lparr>User.Email = ''U@X.COM '', Password = ''pw2''\<rparr>)
             (snd (registerUser asciiStrings exampleEnv
                     (Some \<lparr>User.Email = ''U@X.COM '', Password = '' pw1''\<rparr>)
                         emptyStore)))))) = 1
   \<and> length (filter (\<lambda>u. ToLower asciiStrings (TrimSpace asciiStrings
       (User.Email u)) = ''u@x.com'')
        (userCollection
          (snd (registerUser asciiStrings exampleEnv
                  (Some \<lparr>User.Email = ''U@X.COM '', Password = ''pw2''\<rparr>)
             (snd (registerUser asciiStrings exampleEnv
                     (Some \<lparr>User.Email = ''U@X.COM '', Password = '' pw1''\<rparr>)
                         emptyStore)))))) = 1
   \<and> distinct (map User.Email (userCollection
        (run asciiStrings
           [(exampleEnv, RegisterUser
               (Some \<lparr>User.Email = ''u@x.com'', Password = ''pw1''\<rparr>)),
            (exampleEnv, RegisterUser
                (Some \<lparr>User.Email = ''U@X.COM '', Password = ''pw2''\<rparr>)),
            (exampleEnv, RegisterUser
                (Some \<lparr>User.Email = ''v@x.com'', Password = ''pw1''\<rparr>))]
           emptyStore)))
   \<and> distinct (map (\<lambda>u. ToLower asciiStrings (TrimSpace asciiStrings (User.Email u)))
        (userCollection
          (run asciiStrings
             [(exampleEnv, RegisterUser
                 (Some \<lparr>User.Email = ''u@x.com'', Password = ''pw1''\<rparr>)),
              (exampleEnv, RegisterUser
                  (Some \<lparr>User.Email = ''U@X.COM '', Password = ''pw2''\<rparr>)),
              (exampleEnv, RegisterUser
                  (Some \<lparr>User.Email = ''v@x.com'', Password = ''pw1''\<rparr>))]
             emptyStore)))"
proof -
  have u: "userCollection emptyStore = []"
    by (simp add: emptyStore_def)
  have n: "\<forall>u \<in> set (userCollection emptyStore).
      \<exists>x. User.Email u = ToLower asciiStrings (TrimSpace asciiStrings x)"
    by (simp add: u)
  have d: "distinct (map User.Email (userCollection emptyStore))"
    by (simp add: u)
  have h: "\<not> fails exampleEnv FindOne" "\<not> fails exampleEnv InsertOne"
    by (simp_all add: exampleEnv_def)
  have idem: "\<forall>x. ToLower asciiStrings (TrimSpace asciiStrings
                 (ToLower asciiStrings (TrimSpace asciiStrings x)))
               = ToLower asciiStrings (TrimSpace asciiStrings x)"
    by (rule allI) (rule asciiStrings_idem)
  note t = registerUser_twice [OF n d, where E = "''U@X.COM ''" and ?P1.0 = "'' pw1''"
      and ?P2.0 = "''pw2''" and ?e1.0 = exampleEnv and ?e2.0 = exampleEnv]
  have v: "ToLower asciiStrings (TrimSpace asciiStrings ''U@X.COM '') \<noteq> []
      \<and> TrimSpace asciiStrings '' pw1'' \<noteq> []
      \<and> TrimSpace asciiStrings ''pw2'' \<noteq> [] \<and> \<not> fails exampleEnv FindOne
      \<and> \<not> fails exampleEnv InsertOne \<and> \<not> fails exampleEnv FindOne"
    using h by (simp add: ev_email_upper ev_text_pw1_padded ev_text_pw2)
  note c = t [THEN conjunct1, THEN mp, OF v]
  note 1 = c [THEN conjunct1]
  note 2 = c [THEN conjunct2, THEN conjunct2, THEN conjunct1, unfolded ev_email_upper]
  note 3 = c [THEN conjunct2, THEN conjunct2, THEN conjunct2, THEN mp, OF idem,
      unfolded ev_email_upper]
  have ok: "\<forall>x \<in> set
      [(exampleEnv, RegisterUser
          (Some \<lparr>User.Email = ''u@x.com'', Password = ''pw1''\<rparr>)),
       (exampleEnv, RegisterUser
           (Some \<lparr>User.Email = ''U@X.COM '', Password = ''pw2''\<rparr>)),
       (exampleEnv, RegisterUser
           (Some \<lparr>User.Email = ''v@x.com'', Password = ''pw1''\<rparr>))].
      \<not> fails (fst x) FindOne"
    using h by simp
  note r = t [THEN conjunct2, THEN spec, THEN mp, OF ok]
  note 4 = r [THEN conjunct2, THEN conjunct1]
  note 5 = r [THEN conjunct2, THEN conjunct2, THEN mp, OF idem]
  from u 1 2 3 4 5 show ?thesis by blast
qed

text \<open>
  Claim C2 as it is written fails. From the empty store, a second registration of u@x.com
  whose lookup returns a driver error is answered 201 and inserts a second User with that
  email: the result is \<open>twoUserStore\<close>, where the invariant is broken. From that store two
  more registrations of u@x.com leave two Users with the email, not one. From the store
  that holds the email U@X.COM, which is not in normal form, the registration of u@x.com is
  answered 201, and two Users then have the normal form u@x.com. And with a password that
  is blank after trimming both registrations are rejected with 400: no conflict is reported
  and no User is stored.
\<close>

theorem registerUser_twice_counterexample:
  "fst (registerUser asciiStrings lookupFailsEnv
          (Some \<lparr>User.Email = ''u@x.com'', Password = ''pw2''\<rparr>)
          (snd (registerUser asciiStrings exampleEnv
                  (Some \<lparr>User.Email = ''u@x.com'', Password = ''pw1''\<rparr>) emptyStore)))
     = (201, message usuarioRegistrado)
   \<and> userCollection
        (snd (registerUser asciiStrings lookupFailsEnv
                (Some \<lparr>User.Email = ''u@x.com'', Password = ''pw2''\<rparr>)
          (snd (registerUser asciiStrings exampleEnv
                  (Some \<lparr>User.Email = ''u@x.com'', Password = ''pw1''\<rparr>) emptyStore))))
     = userCollection twoUserStore
   \<and> userCollection
        (snd (registerUser asciiStrings exampleEnv
                (Some \<lparr>User.Email = ''u@x.com'', Password = ''pw1''\<rparr>)
          (snd (registerUser asciiStrings exampleEnv
                  (Some \<lparr>User.Email = ''u@x.com'', Password = ''pw1''\<rparr>)
                      twoUserStore))))
     = [\<lparr>User.Email = ''u@x.com'', Password = ''pw1''\<rparr>,
        \<lparr>User.Email = ''u@x.com'', Password = ''pw2''\<rparr>]
   \<and> ToLower asciiStrings (TrimSpace asciiStrings ''U@X.COM'') = ''u@x.com''
   \<and> fst (registerUser asciiStrings exampleEnv
            (Some \<lparr>User.Email = ''u@x.com'', Password = ''pw2''\<rparr>) upperUserStore)
     = (201, message usuarioRegistrado)
   \<and> userCollection
        (snd (registerUser asciiStrings exampleEnv
                (Some \<lparr>User.Email = ''u@x.com'', Password = ''pw2''\<rparr>) upperUserStore))
     = [\<lparr>User.Email = ''U@X.COM'', Password = ''pw1''\<rparr>,
        \<lparr>User.Email = ''u@x.com'', Password = ''pw2''\<rparr>]
   \<and> fst (registerUser asciiStrings exampleEnv
            (Some \<lparr>User.Email = ''u@x.com'', Password = ''   ''\<rparr>)
          (snd (registerUser asciiStrings exampleEnv
                  (Some \<lparr>User.Email = ''u@x.com'', Password = ''   ''\<rparr>) emptyStore)))
     = (400, error emailPasswordRequeridos)
   \<and> userCollection
        (snd (registerUser asciiStrings exampleEnv
                (Some \<lparr>User.Email = ''u@x.com'', Password = ''   ''\<rparr>)
          (snd (registerUser asciiStrings exampleEnv
                  (Some \<lparr>User.Email = ''u@x.com'', Password = ''   ''\<rparr>) emptyStore))))
     = []"
  by (simp add: registerUser_def normalizeEmail_def normalizeText_def usersFindOne_def
      usersInsertOne_def logCall_def StatusBadRequest_def StatusCreated_def
      ev_email_ux ev_email_upper_raw ev_text_pw1 ev_text_pw2 ev_text_blank
      exampleEnv_def lookupFailsEnv_def emptyStore_def twoUserStore_def upperUserStore_def)

section \<open>Creating and listing Todos\<close>

text \<open>
  Claim C3. A create-Todo request whose title is empty after trimming, or whose email is
  empty after normalisation, is answered 400 "Email y titulo son requeridos" and returns the
  store as it received it: the Todos collection is the same and no driver call was logged.
\<close>

theorem createTodo_empty_title_or_email:
  assumes "TrimSpace lib (createInput.Title i) = []
      \<or> ToLower lib (TrimSpace lib (createInput.Email i)) = []"
  shows "createTodo lib e (Some i) s = ((400, error emailTituloRequeridos), s)
       \<and> calls (snd (createTodo lib e (Some i) s)) = calls s
       \<and> todoCollection (snd (createTodo lib e (Some i) s)) = todoCollection s"
  using assms by (auto simp: createTodo_def normalizeEmail_def normalizeText_def
      StatusBadRequest_def Let_def)

text \<open>The theorem at a blank title, and at a blank email.\<close>

theorem createTodo_empty_title_or_email_witness:
  "TrimSpace asciiStrings ''   '' = []
   \<and> createTodo asciiStrings exampleEnv
       (Some \<lparr>createInput.Email = ''u@x.com'', Title = ''   ''\<rparr>) emptyStore
       = ((400, error emailTituloRequeridos), emptyStore)
   \<and> ToLower asciiStrings (TrimSpace asciiStrings ''   '') = []
   \<and> createTodo asciiStrings exampleEnv
       (Some \<lparr>createInput.Email = ''   '', Title = ''buy milk''\<rparr>) emptyStore
       = ((400, error emailTituloRequeridos), emptyStore)"
proof -
  have 1: "createTodo asciiStrings exampleEnv
      (Some \<lparr>createInput.Email = ''u@x.com'', Title = ''   ''\<rparr>)
      emptyStore = ((400, error emailTituloRequeridos), emptyStore)"
    using createTodo_empty_title_or_email
      [where lib = asciiStrings and e = exampleEnv and s = emptyStore
         and i = "\<lparr>createInput.Email = ''u@x.com'', Title = ''   ''\<rparr>"]
    by (simp add: ev_text_blank)
  have 2: "createTodo asciiStrings exampleEnv
      (Some \<lparr>createInput.Email = ''   '', Title = ''buy milk''\<rparr>)
      emptyStore = ((400, error emailTituloRequeridos), emptyStore)"
    using createTodo_empty_title_or_email
      [where lib = asciiStrings and e = exampleEnv and s = emptyStore
         and i = "\<lparr>createInput.Email = ''   '', Title = ''buy milk''\<rparr>"]
    by (simp add: ev_email_blank)
  from 1 2 show ?thesis by (simp add: ev_text_blank ev_email_blank ev_lower_nil)
qed

section \<open>Updating and deleting a Todo by identifier\<close>

text \<open>The identifiers used in the examples.\<close>

lemma ev_id_1: "ObjectIDFromHex ''507f1f77bcf86cd799439011'' = Some 0x507f1f77bcf86cd799439011"
  by code_simp
lemma ev_id_2: "ObjectIDFromHex ''507f1f77bcf86cd799439012'' = Some 0x507f1f77bcf86cd799439012"
  by code_simp
lemma ev_id_short: "ObjectIDFromHex ''abc'' = None"
  by code_simp
lemma ev_id_nonhex: "ObjectIDFromHex ''507f1f77bcf86cd79943901z'' = None"
  by code_simp
lemma ev_hex_1: "Hex 0x507f1f77bcf86cd799439011 = ''507f1f77bcf86cd799439011''"
  by code_simp

text \<open>
  Claim C6. An update whose identifier is not a string of 24 hexadecimal digits is answered
  400 "ID invalido", whatever the body. With a well-formed identifier and a body that binds: a
  supplied title that is empty after trimming is answered 400 "El titulo no puede estar
  vacio" (also when \<open>completed\<close> is supplied), and a body with neither \<open>title\<close> nor
  \<open>completed\<close> is answered 400 "Nada para actualizar". A body that does not bind is answered
  400 as well. Each time the store is returned as it was received: no collection has changed
  and no driver call was logged.
\<close>

theorem updateTodo_rejections:
  "(ObjectIDFromHex idHex = None \<longrightarrow>
      updateTodo lib e idHex bound s = ((400, error idInvalido), s))
   \<and> (ObjectIDFromHex idHex \<noteq> None \<and> updateInput.Title input = Some title
        \<and> TrimSpace lib title = [] \<longrightarrow>
      updateTodo lib e idHex (Some input) s = ((400, error tituloVacio), s))
   \<and> (ObjectIDFromHex idHex \<noteq> None \<and> updateInput.Title input = None
        \<and> updateInput.Completed input = None \<longrightarrow>
      updateTodo lib e idHex (Some input) s = ((400, error ''Nada para actualizar''), s))
   \<and> (ObjectIDFromHex idHex \<noteq> None \<longrightarrow>
      updateTodo lib e idHex None s = ((400, error datosInvalidos), s))"
  by (auto simp: updateTodo_def normalizeText_def normalizeText_eq StatusBadRequest_def)

text \<open>The theorem at a three-letter identifier, a blank title and the body \<open>{}\<close>.\<close>

theorem updateTodo_rejections_witness:
  "ObjectIDFromHex ''abc'' = None
   \<and> updateTodo asciiStrings exampleEnv ''abc''
        (Some \<lparr>updateInput.Title = None, Completed = Some True\<rparr>) oneTodoStore
       = ((400, error idInvalido), oneTodoStore)
   \<and> ObjectIDFromHex ''507f1f77bcf86cd799439011'' \<noteq> None
   \<and> TrimSpace asciiStrings ''   '' = []
   \<and> updateTodo asciiStrings exampleEnv ''507f1f77bcf86cd799439011''
        (Some \<lparr>updateInput.Title = Some ''   '', Completed = Some True\<rparr>) oneTodoStore
       = ((400, error tituloVacio), oneTodoStore)
   \<and> updateTodo asciiStrings exampleEnv ''507f1f77bcf86cd799439011''
        (Some \<lparr>updateInput.Title = None, Completed = None\<rparr>) oneTodoStore
       = ((400, error ''Nada para actualizar''), oneTodoStore)"
proof -
  have 1: "updateTodo asciiStrings exampleEnv ''abc''
        (Some \<lparr>updateInput.Title = None, Completed = Some True\<rparr>) oneTodoStore
       = ((400, error idInvalido), oneTodoStore)"
    using updateTodo_rejections [where lib = asciiStrings and idHex = "''abc''" and e = exampleEnv
        and bound = "Some \<lparr>updateInput.Title = None, Completed = Some True\<rparr>"
        and s = oneTodoStore, THEN conjunct1]
    by (simp add: ev_id_short)
  have 2: "updateTodo asciiStrings exampleEnv ''507f1f77bcf86cd799439011''
        (Some \<lparr>updateInput.Title = Some ''   '', Completed = Some True\<rparr>) oneTodoStore
       = ((400, error tituloVacio), oneTodoStore)"
    using updateTodo_rejections [where lib = asciiStrings and idHex = "''507f1f77bcf86cd799439011''"
        and input = "\<lparr>updateInput.Title = Some ''   '', Completed = Some True\<rparr>"
        and title = "''   ''" and e = exampleEnv and s = oneTodoStore,
        THEN conjunct2, THEN conjunct1]
    by (simp add: ev_id_1 ev_text_blank)
  have 3: "updateTodo asciiStrings exampleEnv ''507f1f77bcf86cd799439011''
        (Some \<lparr>updateInput.Title = None, Completed = None\<rparr>) oneTodoStore
       = ((400, error ''Nada para actualizar''), oneTodoStore)"
    using updateTodo_rejections [where lib = asciiStrings and idHex = "''507f1f77bcf86cd799439011''"
        and input = "\<lparr>updateInput.Title = None, Completed = None\<rparr>"
        and e = exampleEnv and s = oneTodoStore,
        THEN conjunct2, THEN conjunct2, THEN conjunct1]
    by (simp add: ev_id_1)
  from 1 2 3 show ?thesis by (simp add: ev_id_short ev_id_1 ev_text_blank)
qed

lemma deleteFirst_distinct:
  "distinct (map f xs) \<Longrightarrow> deleteFirst (\<lambda>t. f t = k) xs = filter
      (\<lambda>t. f t \<noteq> k) xs"
proof (induction xs)
  case Nil
  then show ?case by simp
next
  case (Cons x xs)
  show ?case
  proof (cases "f x = k")
    case True
    with Cons.prems have "\<forall>u \<in> set xs. f u \<noteq> k" by (auto simp: image_iff)
    then have "filter (\<lambda>t. f t \<noteq> k) xs = xs" by (simp add: filter_id_conv)
    with True show ?thesis by simp
  next
    case False
    with Cons show ?thesis by simp
  qed
qed

lemma deleteTodo_ok:
  assumes "ObjectIDFromHex idHex = Some objID" "\<not> fails e DeleteOne"
  shows "deleteTodo e idHex s =
     ((200, message ''Tarea eliminada''),
      logCall todos DeleteOne
        (s\<lparr>todoCollection := deleteFirst (\<lambda>t. Todo.ID t = objID)
            (todoCollection s)\<rparr>))"
  using assms by (simp add: deleteTodo_def todosDeleteOne_def StatusOK_def)

text \<open>
  Claim C7. A delete with a malformed identifier is answered 400 "ID invalido" and returns
  the store as it received it. A delete with a well-formed identifier, when the call
  \<open>DeleteOne\<close> completes and the identifiers of the stored Todos are distinct (the unique
  index on \<open>_id\<close>), is answered 200 "Tarea eliminada" whether or not a Todo had the
  identifier; afterwards no Todo has it, the other Todos and the Users are as before, and a
  second delete of the same identifier is answered 200 again and changes no Todo.
\<close>

theorem deleteTodo_idempotent:
  "(ObjectIDFromHex idHex = None \<longrightarrow>
      deleteTodo e idHex s = ((400, error idInvalido), s))
   \<and> (\<forall>objID. ObjectIDFromHex idHex = Some objID \<and> \<not> fails e DeleteOne
          \<and> distinct (map Todo.ID (todoCollection s)) \<longrightarrow>
        fst (deleteTodo e idHex s) = (200, message ''Tarea eliminada'')
        \<and> todoCollection (snd (deleteTodo e idHex s))
            = filter (\<lambda>t. Todo.ID t \<noteq> objID) (todoCollection s)
        \<and> objID \<notin> Todo.ID ` set (todoCollection (snd (deleteTodo e idHex s)))
        \<and> userCollection (snd (deleteTodo e idHex s)) = userCollection s
        \<and> (\<forall>e'. \<not> fails e' DeleteOne \<longrightarrow>
              fst (deleteTodo e' idHex (snd (deleteTodo e idHex s)))
                = (200, message ''Tarea eliminada'')
              \<and> todoCollection (snd (deleteTodo e' idHex (snd (deleteTodo e idHex s))))
                  = todoCollection (snd (deleteTodo e idHex s))))"
proof (intro conjI impI allI)
  assume "ObjectIDFromHex idHex = None"
  then show "deleteTodo e idHex s = ((400, error idInvalido), s)"
    by (simp add: deleteTodo_def StatusBadRequest_def)
next
  fix objID
  assume a: "ObjectIDFromHex idHex = Some objID \<and> \<not> fails e DeleteOne
          \<and> distinct (map Todo.ID (todoCollection s))"
  let ?s1 = "snd (deleteTodo e idHex s)"
  have r: "deleteTodo e idHex s = ((200, message ''Tarea eliminada''),
      logCall todos DeleteOne
        (s\<lparr>todoCollection := deleteFirst (\<lambda>t. Todo.ID t = objID)
            (todoCollection s)\<rparr>))"
    using a by (simp add: deleteTodo_ok)
  show "fst (deleteTodo e idHex s) = (200, message ''Tarea eliminada'')"
    by (simp add: r)
  show t1: "todoCollection ?s1 = filter (\<lambda>t. Todo.ID t \<noteq> objID) (todoCollection s)"
    using a by (simp add: r logCall_def deleteFirst_distinct)
  show "objID \<notin> Todo.ID ` set (todoCollection ?s1)"
    by (auto simp: t1)
  show "userCollection ?s1 = userCollection s"
    by (simp add: r logCall_def)
  fix e' :: env
  assume h: "\<not> fails e' DeleteOne"
  have d1: "distinct (map Todo.ID (todoCollection ?s1))"
    using a by (simp add: t1 distinct_map_filter)
  have r2: "deleteTodo e' idHex ?s1 = ((200, message ''Tarea eliminada''),
      logCall todos DeleteOne
        (?s1\<lparr>todoCollection := deleteFirst (\<lambda>t. Todo.ID t = objID)
            (todoCollection ?s1)\<rparr>))"
    using a h by (simp add: deleteTodo_ok)
  show "fst (deleteTodo e' idHex ?s1) = (200, message ''Tarea eliminada'')"
    by (simp add: r2)
  have "todoCollection (snd (deleteTodo e' idHex ?s1))
      = filter (\<lambda>t. Todo.ID t \<noteq> objID) (todoCollection ?s1)"
    using d1 by (simp add: r2 logCall_def deleteFirst_distinct)
  then show "todoCollection (snd (deleteTodo e' idHex ?s1)) = todoCollection ?s1"
    by (simp add: t1)
qed


lemma ev_id_3: "ObjectIDFromHex ''507f1f77bcf86cd799439013'' = Some 0x507f1f77bcf86cd799439013"
  by code_simp

text \<open>
  The theorem at the store of two Todos: deleting the first, deleting it again, deleting an
  identifier that no Todo has, and deleting two malformed identifiers (too short; 24
  characters, one of them not a hexadecimal digit).
\<close>

theorem deleteTodo_idempotent_witness:
  "distinct (map Todo.ID (todoCollection twoTodoStore))
   \<and> fst (deleteTodo exampleEnv ''507f1f77bcf86cd799439011'' twoTodoStore)
       = (200, message ''Tarea eliminada'')
   \<and> todoCollection (snd (deleteTodo exampleEnv ''507f1f77bcf86cd799439011'' twoTodoStore))
       = [\<lparr>Todo.ID = 0x507f1f77bcf86cd799439012, Email = ''v@x.com'', Title = ''buy milk'',
          Completed = True, CreatedAt = 1700000001123000000\<rparr>]
   \<and> fst (deleteTodo exampleEnv ''507f1f77bcf86cd799439011''
             (snd (deleteTodo exampleEnv ''507f1f77bcf86cd799439011'' twoTodoStore)))
       = (200, message ''Tarea eliminada'')
   \<and> fst (deleteTodo exampleEnv ''507f1f77bcf86cd799439013'' twoTodoStore)
       = (200, message ''Tarea eliminada'')
   \<and> todoCollection (snd (deleteTodo exampleEnv ''507f1f77bcf86cd799439013'' twoTodoStore))
       = todoCollection twoTodoStore
   \<and> deleteTodo exampleEnv ''abc'' twoTodoStore = ((400, error idInvalido), twoTodoStore)
   \<and> deleteTodo exampleEnv ''507f1f77bcf86cd79943901z'' twoTodoStore
       = ((400, error idInvalido), twoTodoStore)"
proof -
  have d: "distinct (map Todo.ID (todoCollection twoTodoStore))"
    by (simp add: twoTodoStore_def)
  have h: "\<not> fails exampleEnv DeleteOne"
    by (simp add: exampleEnv_def)
  note a = deleteTodo_idempotent [where idHex = "''507f1f77bcf86cd799439011''"
      and e = exampleEnv and s = twoTodoStore, THEN conjunct2, THEN spec, THEN mp,
      OF conjI [OF ev_id_1 conjI [OF h d]]]
  note b = deleteTodo_idempotent [where idHex = "''507f1f77bcf86cd799439013''"
      and e = exampleEnv and s = twoTodoStore, THEN conjunct2, THEN spec, THEN mp,
      OF conjI [OF ev_id_3 conjI [OF h d]]]
  note c = deleteTodo_idempotent [where idHex = "''abc''"
      and e = exampleEnv and s = twoTodoStore, THEN conjunct1, THEN mp, OF ev_id_short]
  note c' = deleteTodo_idempotent [where idHex = "''507f1f77bcf86cd79943901z''"
      and e = exampleEnv and s = twoTodoStore, THEN conjunct1, THEN mp, OF ev_id_nonhex]
  have 2: "todoCollection (snd (deleteTodo exampleEnv ''507f1f77bcf86cd799439011'' twoTodoStore))
       = [\<lparr>Todo.ID = 0x507f1f77bcf86cd799439012, Email = ''v@x.com'', Title = ''buy milk'',
          Completed = True, CreatedAt = 1700000001123000000\<rparr>]"
    using a [THEN conjunct2, THEN conjunct1] by (simp add: twoTodoStore_def)
  have 3: "fst (deleteTodo exampleEnv ''507f1f77bcf86cd799439011''
             (snd (deleteTodo exampleEnv ''507f1f77bcf86cd799439011'' twoTodoStore)))
       = (200, message ''Tarea eliminada'')"
    using a h by blast
  have 5: "todoCollection (snd (deleteTodo exampleEnv ''507f1f77bcf86cd799439013'' twoTodoStore))
       = todoCollection twoTodoStore"
    using b [THEN conjunct2, THEN conjunct1] by (simp add: twoTodoStore_def)
  from d a [THEN conjunct1] 2 3 b [THEN conjunct1] 5 c c' show ?thesis by blast
qed

section \<open>Clearing and listing with a filter\<close>

lemma clearTodos_ok:
  assumes "\<not> fails e DeleteMany"
  shows "clearTodos e email s =
     ((200, message ''Tareas eliminadas''),
      logCall todos DeleteMany
        (s\<lparr>todoCollection :=
             filter (\<lambda>t. \<not> matchesEmail (if email \<noteq>
                 [] then Some email else None) t)
               (todoCollection s)\<rparr>))"
  using assms by (simp add: clearTodos_def todosDeleteMany_def StatusOK_def)

text \<open>
  Claim C8, as amended. When the call \<open>DeleteMany\<close> completes, clearing with a non-empty
  email query string removes exactly the Todos whose stored email equals that string as it
  was supplied, with no trimming and no lower-casing; the empty query string is no filter
  and removes every Todo. Hence, in a store whose owner emails are all in normalised form,
  a query that is not in normalised form (mixed case, padded) removes nothing. The Users
  are unchanged.
\<close>

theorem clearTodos_raw_filter:
  "\<not> fails e DeleteMany \<longrightarrow>
     fst (clearTodos e email s) = (200, message ''Tareas eliminadas'')
     \<and> userCollection (snd (clearTodos e email s)) = userCollection s
     \<and> (email \<noteq> [] \<longrightarrow>
          todoCollection (snd (clearTodos e email s))
            = filter (\<lambda>t. Todo.Email t \<noteq> email) (todoCollection s))
     \<and> (email = [] \<longrightarrow> todoCollection (snd (clearTodos e email s)) = [])
     \<and> (email \<noteq> [] \<and> ToLower lib (TrimSpace lib email) \<noteq> email
          \<and> (\<forall>t \<in> set (todoCollection s). ToLower lib (TrimSpace lib
              (Todo.Email t)) = Todo.Email t) \<longrightarrow>
          todoCollection (snd (clearTodos e email s)) = todoCollection s)"
proof (intro conjI impI)
  assume h: "\<not> fails e DeleteMany"
  note r = clearTodos_ok [OF h, of email s]
  show "fst (clearTodos e email s) = (200, message ''Tareas eliminadas'')"
    by (simp add: r)
  show "userCollection (snd (clearTodos e email s)) = userCollection s"
    by (simp add: r logCall_def)
  show "todoCollection (snd (clearTodos e email s))
            = filter (\<lambda>t. Todo.Email t \<noteq> email)
                (todoCollection s)" if "email \<noteq> []"
    using that by (simp add: r logCall_def matchesEmail_def)
  show "todoCollection (snd (clearTodos e email s)) = []" if "email = []"
    using that by (simp add: clearTodos_ok [OF h] logCall_def matchesEmail_def)
  show "todoCollection (snd (clearTodos e email s)) = todoCollection s"
    if a: "email \<noteq> [] \<and> ToLower lib (TrimSpace lib email) \<noteq> email
          \<and> (\<forall>t \<in> set (todoCollection s). ToLower lib (TrimSpace lib
              (Todo.Email t)) = Todo.Email t)"
  proof -
    have "\<forall>t \<in> set (todoCollection s). Todo.Email t \<noteq> email"
      using a by metis
    then have "filter (\<lambda>t. Todo.Email t \<noteq> email)
        (todoCollection s) = todoCollection s"
      by (simp add: filter_id_conv)
    with a show ?thesis
      by (simp add: r logCall_def matchesEmail_def)
  qed
qed

lemma ev_email_vx_upper: "ToLower asciiStrings (TrimSpace asciiStrings ''V@X.COM '') = ''v@x.com''"
  unfolding asciiStrings_sel by code_simp

text \<open>
  The theorem at the store of two Todos: the exact email removes the one Todo of v@x.com, the
  padded upper-case spelling removes nothing, the empty string removes both.
\<close>

theorem clearTodos_raw_filter_witness:
  "\<not> fails exampleEnv DeleteMany
   \<and> todoCollection (snd (clearTodos exampleEnv ''v@x.com'' twoTodoStore))
       = [\<lparr>Todo.ID = 0x507f1f77bcf86cd799439011, Email = ''u@x.com'', Title = ''wash car'',
           Completed = False, CreatedAt = 1700000000123000000\<rparr>]
   \<and> ToLower asciiStrings (TrimSpace asciiStrings ''V@X.COM '') = ''v@x.com''
   \<and> todoCollection (snd (clearTodos exampleEnv ''V@X.COM '' twoTodoStore))
       = todoCollection twoTodoStore
   \<and> todoCollection (snd (clearTodos exampleEnv [] twoTodoStore)) = []"
proof -
  have h: "\<not> fails exampleEnv DeleteMany"
    by (simp add: exampleEnv_def)
  have 1: "todoCollection (snd (clearTodos exampleEnv ''v@x.com'' twoTodoStore))
       = [\<lparr>Todo.ID = 0x507f1f77bcf86cd799439011, Email = ''u@x.com'', Title = ''wash car'',
           Completed = False, CreatedAt = 1700000000123000000\<rparr>]"
    using clearTodos_raw_filter
        [where lib = asciiStrings and e = exampleEnv and email = "''v@x.com''"
        and s = twoTodoStore, THEN mp, OF h, THEN conjunct2, THEN conjunct2, THEN conjunct1]
    by (simp add: twoTodoStore_def)
  have 2: "todoCollection (snd (clearTodos exampleEnv ''V@X.COM '' twoTodoStore))
       = todoCollection twoTodoStore"
    using clearTodos_raw_filter
        [where lib = asciiStrings and e = exampleEnv and email = "''V@X.COM ''"
        and s = twoTodoStore, THEN mp, OF h, THEN conjunct2, THEN conjunct2, THEN conjunct2,
        THEN conjunct2]
    by (simp add: twoTodoStore_def ev_email_vx_upper ev_email_ux ev_email_vx)
  have 3: "todoCollection (snd (clearTodos exampleEnv [] twoTodoStore)) = []"
    using clearTodos_raw_filter [where lib = asciiStrings and e = exampleEnv and email = "[]"
        and s = twoTodoStore, THEN mp, OF h, THEN conjunct2, THEN conjunct2, THEN conjunct2,
        THEN conjunct1]
    by simp
  from h 1 2 3 show ?thesis by (simp add: ev_email_vx_upper)
qed

text \<open>
  Claim C8 as it is written fails at the empty query string: the one stored Todo belongs to
  u@x.com, so no stored email equals the string supplied, and yet the Todo is removed.
\<close>

theorem clearTodos_empty_query_counterexample:
  "Todo.Email (hd (todoCollection oneTodoStore)) = ''u@x.com''
   \<and> length (todoCollection oneTodoStore) = 1
   \<and> filter (\<lambda>t. Todo.Email t = []) (todoCollection oneTodoStore) = []
   \<and> fst (clearTodos exampleEnv [] oneTodoStore) = (200, message ''Tareas eliminadas'')
   \<and> todoCollection (snd (clearTodos exampleEnv [] oneTodoStore)) = []"
  by (simp add: clearTodos_def todosDeleteMany_def logCall_def matchesEmail_def
      oneTodoStore_def exampleEnv_def StatusOK_def)

lemma matchesEmail_Some: "matchesEmail (Some x) = (\<lambda>t. Todo.Email t = x)"
  by (rule ext) (simp add: matchesEmail_def)

lemma matchesEmail_None: "matchesEmail None = (\<lambda>t. True)"
  by (rule ext) (simp add: matchesEmail_def)

lemma listTodos_ok:
  assumes "\<not> fails e Find" "\<not> fails e CursorAll"
  shows "fst (listTodos lib e email s) =
     (200, todosBody (map toTodoResponse
        (filter (matchesEmail (if email \<noteq> [] then Some (ToLower lib
            (TrimSpace lib email)) else None))
           (todoCollection s))))"
  using assms by (simp add: listTodos_def normalizeEmail_def normalizeText_def todosFind_def
      StatusOK_def)

text \<open>
  Claim C9. \<open>listTodos\<close> tests the raw query string for emptiness and normalises it only
  afterwards. So, when the calls \<open>Find\<close> and \<open>cursor.All\<close> complete, a query string that is
  not empty but is empty after normalisation (white space only) is a filter on the empty
  owner email: the answer lists exactly the Todos whose stored email is the empty string,
  hence nothing when every stored Todo has a non-empty owner, whereas the empty (or omitted)
  query string lists every Todo of the store.
\<close>

theorem listTodos_whitespace_filter:
  "email \<noteq> [] \<and> ToLower lib (TrimSpace lib email) = [] \<and> \<not> fails e Find
      \<and> \<not> fails e CursorAll \<longrightarrow>
     fst (listTodos lib e email s)
       = (200, todosBody (map toTodoResponse
                            (filter (\<lambda>t. Todo.Email t = []) (todoCollection s))))
     \<and> ((\<forall>t \<in> set (todoCollection s). Todo.Email t \<noteq> []) \<longrightarrow>
           fst (listTodos lib e email s) = (200, todosBody []))
     \<and> fst (listTodos lib e [] s) = (200, todosBody (map toTodoResponse (todoCollection s)))"
proof (intro impI conjI)
  assume a: "email \<noteq> [] \<and> ToLower lib (TrimSpace lib email) = []
      \<and> \<not> fails e Find \<and> \<not> fails e CursorAll"
  then have h: "\<not> fails e Find" "\<not> fails e CursorAll" by simp_all
  show 1: "fst (listTodos lib e email s)
       = (200, todosBody (map toTodoResponse
                            (filter (\<lambda>t. Todo.Email t = []) (todoCollection s))))"
    using a by (simp add: listTodos_ok [OF h] matchesEmail_Some)
  show "fst (listTodos lib e email s) = (200, todosBody [])"
    if "\<forall>t \<in> set (todoCollection s). Todo.Email t \<noteq> []"
  proof -
    have "filter (\<lambda>t. Todo.Email t = []) (todoCollection s) = []"
      using that by (simp add: filter_empty_conv)
    then show ?thesis by (simp add: 1)
  qed
  show "fst (listTodos lib e [] s) = (200, todosBody (map toTodoResponse (todoCollection s)))"
    by (simp add: listTodos_ok [OF h] matchesEmail_None)
qed

lemma ev_hex_2: "Hex 0x507f1f77bcf86cd799439012 = ''507f1f77bcf86cd799439012''"
  by code_simp

text \<open>
  The theorem at a query of three spaces: on a store with one Todo of empty owner, and on the
  store of two Todos with owners, where the omitted filter lists both.
\<close>

theorem listTodos_whitespace_filter_witness:
  "''   '' \<noteq> [] \<and> ToLower asciiStrings (TrimSpace asciiStrings ''   '') = []
   \<and> \<not> fails exampleEnv Find \<and> \<not> fails exampleEnv CursorAll
   \<and> fst (listTodos asciiStrings exampleEnv ''   '' blankOwnerStore)
       = (200, todosBody
           [\<lparr>TodoResponse.ID = ''507f1f77bcf86cd799439012'', Email =
               [], Title = ''buy milk'',
             Completed = True, CreatedAt = 1700000001123000000\<rparr>])
   \<and> fst (listTodos asciiStrings exampleEnv ''   '' twoTodoStore) = (200, todosBody [])
   \<and> fst (listTodos asciiStrings exampleEnv [] twoTodoStore)
       = (200, todosBody (map toTodoResponse (todoCollection twoTodoStore)))"
proof -
  have h: "''   '' \<noteq> [] \<and> ToLower asciiStrings (TrimSpace asciiStrings ''   '') = []
      \<and> \<not> fails exampleEnv Find \<and> \<not> fails exampleEnv CursorAll"
    by (simp add: ev_email_blank exampleEnv_def)
  note a = listTodos_whitespace_filter
      [where lib = asciiStrings and email = "''   ''" and e = exampleEnv
      and s = blankOwnerStore, THEN mp, OF h]
  note b = listTodos_whitespace_filter
      [where lib = asciiStrings and email = "''   ''" and e = exampleEnv
      and s = twoTodoStore, THEN mp, OF h]
  have 1: "fst (listTodos asciiStrings exampleEnv ''   '' blankOwnerStore)
       = (200, todosBody
           [\<lparr>TodoResponse.ID = ''507f1f77bcf86cd799439012'', Email =
               [], Title = ''buy milk'',
             Completed = True, CreatedAt = 1700000001123000000\<rparr>])"
    using a [THEN conjunct1] by (simp add: blankOwnerStore_def toTodoResponse_def ev_hex_2)
  have 2: "fst (listTodos asciiStrings exampleEnv ''   '' twoTodoStore) = (200, todosBody [])"
    using b [THEN conjunct2, THEN conjunct1] by (simp add: twoTodoStore_def)
  from h 1 2 b [THEN conjunct2, THEN conjunct2] show ?thesis by blast
qed

section \<open>The existence lookup of the registration\<close>

lemma registerUser_lookup_fails:
  assumes "ToLower lib (TrimSpace lib E) \<noteq> []" "TrimSpace lib P \<noteq> []"
    and "fst (usersFindOne e (ToLower lib (TrimSpace lib E)) s) = Inl err"
  shows "registerUser lib e (Some \<lparr>User.Email = E, Password = P\<rparr>) s =
     (if fails e InsertOne
      then ((500, error ''Error al registrar''), logCall users InsertOne (logCall users FindOne s))
      else ((201, message usuarioRegistrado),
            logCall users InsertOne
              ((logCall users FindOne s)
                 \<lparr>userCollection := userCollection s @
                     [\<lparr>User.Email = ToLower lib
                         (TrimSpace lib E), Password = TrimSpace lib P\<rparr>]\<rparr>)))"
  using assms
  by (auto simp: registerUser_def normalizeEmail_def normalizeText_def usersFindOne_def
      usersInsertOne_def logCall_def
      StatusInternalServerError_def StatusCreated_def split: if_splits option.splits)

text \<open>
  Claim C10. A registration is answered 409 exactly when its body binds, email and password
  pass the validation, and the lookup \<open>FindOne\<close> returns a User. When the lookup returns
  any error, \<open>ErrNoDocuments\<close> or another one, the registration goes on to \<open>InsertOne\<close> (the
  calls logged are the lookup and then the insert): it is answered 201 with the User appended
  when the insert completes, and 500 "Error al registrar" with the Users unchanged when the
  insert fails; the error of the lookup is never reported. A failing driver call is such a
  lookup error, whatever the store holds.
\<close>

theorem registerUser_conflict_iff_lookup_returns_user:
  "(fst (fst (registerUser lib e bound s)) = 409
      \<longleftrightarrow> (\<exists>u existing. bound = Some u
          \<and> ToLower lib (TrimSpace lib (User.Email u)) \<noteq> []
              \<and> TrimSpace lib (Password u) \<noteq> []
              \<and> fst (usersFindOne e (ToLower lib (TrimSpace lib
                  (User.Email u))) s) = Inr existing))
   \<and> (\<forall>err. ToLower lib (TrimSpace lib E) \<noteq> []
       \<and> TrimSpace lib P \<noteq> []
          \<and> fst (usersFindOne e (ToLower lib (TrimSpace lib E)) s) = Inl err \<longrightarrow>
        calls (snd (registerUser lib e (Some \<lparr>User.Email = E, Password = P\<rparr>) s))
          = calls s @ [(users, FindOne), (users, InsertOne)]
        \<and> (if fails e InsertOne
            then fst (registerUser lib e (Some \<lparr>User.Email = E, Password = P\<rparr>) s)
                   = (500, error ''Error al registrar'')
                 \<and> userCollection (snd (registerUser lib e
                     (Some \<lparr>User.Email = E, Password = P\<rparr>) s))
                   = userCollection s
            else fst (registerUser lib e (Some \<lparr>User.Email = E, Password = P\<rparr>) s)
                   = (201, message usuarioRegistrado)
                 \<and> userCollection (snd (registerUser lib e
                     (Some \<lparr>User.Email = E, Password = P\<rparr>) s))
                   = userCollection s @
                       [\<lparr>User.Email = ToLower lib
                           (TrimSpace lib E), Password = TrimSpace lib P\<rparr>]))
   \<and> (fails e FindOne \<longrightarrow> fst (usersFindOne e (ToLower lib
       (TrimSpace lib E)) s) = Inl ErrStore)"
proof (intro conjI allI impI)
  show "fst (fst (registerUser lib e bound s)) = 409
      \<longleftrightarrow> (\<exists>u existing. bound = Some u
          \<and> ToLower lib (TrimSpace lib (User.Email u)) \<noteq> []
              \<and> TrimSpace lib (Password u) \<noteq> []
              \<and> fst (usersFindOne e (ToLower lib (TrimSpace lib
                  (User.Email u))) s) = Inr existing)"
    by (auto simp: registerUser_def normalizeEmail_def normalizeText_def usersFindOne_def
        usersInsertOne_def Let_def
        StatusBadRequest_def StatusConflict_def StatusInternalServerError_def StatusCreated_def
        split: option.splits sum.splits if_splits)
next
  fix err
  assume a: "ToLower lib (TrimSpace lib E) \<noteq> [] \<and> TrimSpace lib P \<noteq> []
          \<and> fst (usersFindOne e (ToLower lib (TrimSpace lib E)) s) = Inl err"
  then have r: "registerUser lib e (Some \<lparr>User.Email = E, Password = P\<rparr>) s =
     (if fails e InsertOne
      then ((500, error ''Error al registrar''), logCall users InsertOne (logCall users FindOne s))
      else ((201, message usuarioRegistrado),
            logCall users InsertOne
              ((logCall users FindOne s)
                 \<lparr>userCollection := userCollection s @
                     [\<lparr>User.Email = ToLower lib
                         (TrimSpace lib E), Password = TrimSpace lib P\<rparr>]\<rparr>)))"
    by (simp add: registerUser_lookup_fails)
  show "calls (snd (registerUser lib e (Some \<lparr>User.Email = E, Password = P\<rparr>) s))
          = calls s @ [(users, FindOne), (users, InsertOne)]"
    by (simp add: r logCall_def)
  show "if fails e InsertOne
            then fst (registerUser lib e (Some \<lparr>User.Email = E, Password = P\<rparr>) s)
                   = (500, error ''Error al registrar'')
                 \<and> userCollection (snd (registerUser lib e
                     (Some \<lparr>User.Email = E, Password = P\<rparr>) s))
                   = userCollection s
            else fst (registerUser lib e (Some \<lparr>User.Email = E, Password = P\<rparr>) s)
                   = (201, message usuarioRegistrado)
                 \<and> userCollection (snd (registerUser lib e
                     (Some \<lparr>User.Email = E, Password = P\<rparr>) s))
                   = userCollection s @
                       [\<lparr>User.Email = ToLower lib
                           (TrimSpace lib E), Password = TrimSpace lib P\<rparr>]"
    by (simp add: r logCall_def)
next
  assume "fails e FindOne"
  then show "fst (usersFindOne e (ToLower lib (TrimSpace lib E)) s) = Inl ErrStore"
    by (simp add: usersFindOne_def)
qed


text \<open>
  The theorem at the store that holds u@x.com already: with a lookup that fails, the
  registration of u@x.com is answered 201 and a second User with that email is stored; with a
  lookup that completes it is answered 409.
\<close>

theorem registerUser_conflict_iff_lookup_returns_user_witness:
  "fails lookupFailsEnv FindOne
   \<and> userCollection oneUserStore =
       [\<lparr>User.Email = ''u@x.com'', Password = ''pw1''\<rparr>]
   \<and> fst (registerUser asciiStrings lookupFailsEnv
       (Some \<lparr>User.Email = ''u@x.com'', Password = ''pw2''\<rparr>)
           oneUserStore) = (201, message usuarioRegistrado)
   \<and> userCollection
        (snd (registerUser asciiStrings lookupFailsEnv
            (Some \<lparr>User.Email = ''u@x.com'', Password = ''pw2''\<rparr>)
           oneUserStore))
       = [\<lparr>User.Email = ''u@x.com'', Password = ''pw1''\<rparr>,
          \<lparr>User.Email = ''u@x.com'', Password = ''pw2''\<rparr>]
   \<and> calls
        (snd (registerUser asciiStrings lookupFailsEnv
            (Some \<lparr>User.Email = ''u@x.com'', Password = ''pw2''\<rparr>)
           oneUserStore))
       = [(users, FindOne), (users, InsertOne)]
   \<and> fst (fst (registerUser asciiStrings exampleEnv
       (Some \<lparr>User.Email = ''u@x.com'', Password = ''pw2''\<rparr>)
           oneUserStore)) = 409"
proof -
  have f: "fails lookupFailsEnv FindOne" "\<not> fails lookupFailsEnv InsertOne"
    by (simp_all add: lookupFailsEnv_def)
  have u: "userCollection oneUserStore =
      [\<lparr>User.Email = ''u@x.com'', Password = ''pw1''\<rparr>]"
    "calls oneUserStore = []"
    by (simp_all add: oneUserStore_def)
  note t = registerUser_conflict_iff_lookup_returns_user
    [where lib = asciiStrings and e = lookupFailsEnv and E = "''u@x.com''" and P = "''pw2''" and s
        = oneUserStore]
  have l: "fst (usersFindOne lookupFailsEnv (ToLower asciiStrings
      (TrimSpace asciiStrings ''u@x.com'')) oneUserStore)
      = Inl ErrStore"
    using t [THEN conjunct2, THEN conjunct2] f by blast
  have v: "ToLower asciiStrings (TrimSpace asciiStrings ''u@x.com'') \<noteq> []
      \<and> TrimSpace asciiStrings ''pw2'' \<noteq> []
          \<and> fst (usersFindOne lookupFailsEnv (ToLower asciiStrings
              (TrimSpace asciiStrings ''u@x.com'')) oneUserStore)
              = Inl ErrStore"
    using l by (simp add: ev_email_ux ev_text_pw2)
  note c = t [THEN conjunct2, THEN conjunct1, THEN spec, THEN mp, OF v]
  have 1: "fst (registerUser asciiStrings lookupFailsEnv
      (Some \<lparr>User.Email = ''u@x.com'', Password = ''pw2''\<rparr>)
           oneUserStore) = (201, message usuarioRegistrado)"
    using c f by simp
  have 2: "userCollection
        (snd (registerUser asciiStrings lookupFailsEnv
            (Some \<lparr>User.Email = ''u@x.com'', Password = ''pw2''\<rparr>)
           oneUserStore))
       = [\<lparr>User.Email = ''u@x.com'', Password = ''pw1''\<rparr>,
          \<lparr>User.Email = ''u@x.com'', Password = ''pw2''\<rparr>]"
    using c f by (simp add: u ev_email_ux ev_text_pw2)
  have 3: "calls
        (snd (registerUser asciiStrings lookupFailsEnv
            (Some \<lparr>User.Email = ''u@x.com'', Password = ''pw2''\<rparr>)
           oneUserStore))
       = [(users, FindOne), (users, InsertOne)]"
    using c by (simp add: u)
  have e: "fst (usersFindOne exampleEnv (ToLower asciiStrings
      (TrimSpace asciiStrings ''u@x.com'')) oneUserStore)
      = Inr \<lparr>User.Email = ''u@x.com'', Password = ''pw1''\<rparr>"
    by (simp add: usersFindOne_def exampleEnv_def oneUserStore_def ev_email_ux)
  have 4: "fst (fst (registerUser asciiStrings exampleEnv
      (Some \<lparr>User.Email = ''u@x.com'', Password = ''pw2''\<rparr>)
           oneUserStore)) = 409"
    using registerUser_conflict_iff_lookup_returns_user
      [where lib = asciiStrings and e = exampleEnv and s = oneUserStore
         and bound = "Some \<lparr>User.Email = ''u@x.com'', Password = ''pw2''\<rparr>", THEN
             conjunct1] e
    by (simp add: ev_email_ux ev_text_pw2)
  from f u 1 2 3 4 show ?thesis by blast
qed

section \<open>Creating a Todo and listing it\<close>

lemma length_Hex: "length (Hex w) = 24"
  by (simp add: Hex_def)

lemma createTodo_ok:
  assumes "ToLower lib (TrimSpace lib (createInput.Email i)) \<noteq> []"
    and "TrimSpace lib (createInput.Title i) \<noteq> []"
    and "\<not> fails e InsertOne" "NewObjectID e \<notin> Todo.ID ` set (todoCollection s)"
  shows "createTodo lib e (Some i) s =
     ((201, todoBody \<lparr>TodoResponse.ID = Hex (NewObjectID e),
                      Email = ToLower lib (TrimSpace lib (createInput.Email i)),
                      Title = TrimSpace lib (createInput.Title i),
                      Completed = False, CreatedAt = Now e\<rparr>),
      logCall todos InsertOne
        (s\<lparr>todoCollection := todoCollection s @
              [\<lparr>Todo.ID = NewObjectID e,
                Email = ToLower lib (TrimSpace lib (createInput.Email i)),
                Title = TrimSpace lib (createInput.Title i),
                Completed = False, CreatedAt = bsonDateTime (Now e)\<rparr>]\<rparr>))"
  using assms
  by (simp add: createTodo_def normalizeEmail_def normalizeText_def todosInsertOne_def
      toTodoResponse_def StatusCreated_def)

text \<open>
  Claim C4. Let a Todo be created with any email E and title T that are non-empty after
  normalisation, the insert completing with an identifier that no stored Todo has. The
  answer is 201 with the projection whose owner is the trimmed and lower-cased E, whose title
  is the trimmed T, whose \<open>completed\<close> is false and whose identifier, the 24 hexadecimal
  digits of the generated identifier, is not empty; the Todo stored has that owner. Listing
  then with any non-empty query Q whose trimmed and lower-cased form is that of E, when
  \<open>Find\<close> and \<open>cursor.All\<close> complete, is answered 200 with the Todos stored before for the
  trimmed and lower-cased Q, followed by the new one: the same identifier, owner, title and
  \<open>completed\<close>, and the creation time at the millisecond precision of the store. Stored
  owner and filter thus go through the same trimming and lower-casing, the library's,
  whatever they do. The example of the claim is E = "a@b.com", T = "buy milk" and
  Q = "A@B.COM ".
\<close>

theorem createTodo_then_listTodos:
  "ToLower lib (TrimSpace lib E) \<noteq> [] \<and> TrimSpace lib T \<noteq> [] \<and> Q \<noteq> []
     \<and> ToLower lib (TrimSpace lib Q) = ToLower lib (TrimSpace lib E)
     \<and> \<not> fails e InsertOne \<and> NewObjectID e \<notin> Todo.ID ` set (todoCollection s)
     \<and> \<not> fails e' Find \<and> \<not> fails e' CursorAll \<longrightarrow>
   fst (createTodo lib e (Some \<lparr>createInput.Email = E, Title = T\<rparr>) s)
     = (201, todoBody \<lparr>TodoResponse.ID = Hex (NewObjectID e),
                       Email = ToLower lib (TrimSpace lib E),
                       Title = TrimSpace lib T, Completed = False, CreatedAt = Now e\<rparr>)
   \<and> Hex (NewObjectID e) \<noteq> []
   \<and> todoCollection (snd (createTodo lib e
       (Some \<lparr>createInput.Email = E, Title = T\<rparr>) s))
     = todoCollection s @
         [\<lparr>Todo.ID = NewObjectID e, Email = ToLower lib (TrimSpace lib E),
           Title = TrimSpace lib T, Completed = False, CreatedAt = bsonDateTime (Now e)\<rparr>]
   \<and> fst (listTodos lib e' Q
            (snd (createTodo lib e (Some \<lparr>createInput.Email = E, Title = T\<rparr>) s)))
     = (200, todosBody
          (map toTodoResponse
             (filter (\<lambda>t. Todo.Email t = ToLower lib (TrimSpace lib Q)) (todoCollection s))
           @ [\<lparr>TodoResponse.ID = Hex (NewObjectID e),
                Email = ToLower lib (TrimSpace lib E),
                Title = TrimSpace lib T, Completed = False,
                CreatedAt = bsonDateTime (Now e)\<rparr>]))"
proof (intro impI conjI)
  assume a: "ToLower lib (TrimSpace lib E) \<noteq> [] \<and> TrimSpace lib T \<noteq> []
      \<and> Q \<noteq> []
     \<and> ToLower lib (TrimSpace lib Q) = ToLower lib (TrimSpace lib E)
     \<and> \<not> fails e InsertOne \<and> NewObjectID e \<notin> Todo.ID ` set (todoCollection s)
     \<and> \<not> fails e' Find \<and> \<not> fails e' CursorAll"
  let ?i = "\<lparr>createInput.Email = E, Title = T\<rparr>"
  have c: "createTodo lib e (Some ?i) s =
     ((201, todoBody \<lparr>TodoResponse.ID = Hex (NewObjectID e),
                      Email = ToLower lib (TrimSpace lib E),
                      Title = TrimSpace lib T, Completed = False, CreatedAt = Now e\<rparr>),
      logCall todos InsertOne
        (s\<lparr>todoCollection := todoCollection s @
              [\<lparr>Todo.ID = NewObjectID e, Email = ToLower lib (TrimSpace lib E),
                Title = TrimSpace lib T, Completed = False,
                CreatedAt = bsonDateTime (Now e)\<rparr>]\<rparr>))"
    using a createTodo_ok [where i = ?i and lib = lib and e = e and s = s] by simp
  show "fst (createTodo lib e (Some ?i) s)
     = (201, todoBody \<lparr>TodoResponse.ID = Hex (NewObjectID e),
                       Email = ToLower lib (TrimSpace lib E),
                       Title = TrimSpace lib T, Completed = False, CreatedAt = Now e\<rparr>)"
    by (simp add: c)
  show "Hex (NewObjectID e) \<noteq> []"
    using length_Hex [of "NewObjectID e"] by auto
  show "todoCollection (snd (createTodo lib e (Some ?i) s))
     = todoCollection s @
         [\<lparr>Todo.ID = NewObjectID e, Email = ToLower lib (TrimSpace lib E),
           Title = TrimSpace lib T, Completed = False, CreatedAt = bsonDateTime (Now e)\<rparr>]"
    by (simp add: c logCall_def)
  have h: "\<not> fails e' Find" "\<not> fails e' CursorAll" using a by simp_all
  have q: "Q \<noteq> []" "ToLower lib (TrimSpace lib Q) = ToLower lib (TrimSpace lib E)"
    using a by simp_all
  show "fst (listTodos lib e' Q (snd (createTodo lib e (Some ?i) s)))
     = (200, todosBody
          (map toTodoResponse
             (filter (\<lambda>t. Todo.Email t = ToLower lib (TrimSpace lib Q)) (todoCollection s))
           @ [\<lparr>TodoResponse.ID = Hex (NewObjectID e),
                Email = ToLower lib (TrimSpace lib E),
                Title = TrimSpace lib T, Completed = False,
                CreatedAt = bsonDateTime (Now e)\<rparr>]))"
    using q
    by (simp add: c listTodos_ok [OF h] matchesEmail_Some logCall_def toTodoResponse_def)
qed

text \<open>The values of the examples: normal forms, the printed identifier, the stored date.\<close>

lemma ev_email_ab: "ToLower asciiStrings (TrimSpace asciiStrings ''a@b.com'') = ''a@b.com''"
  unfolding asciiStrings_sel by code_simp
lemma ev_email_ab_upper: "ToLower asciiStrings (TrimSpace asciiStrings ''A@B.COM '') = ''a@b.com''"
  unfolding asciiStrings_sel by code_simp
lemma ev_email_ab_mixed: "ToLower asciiStrings (TrimSpace asciiStrings '' A@b.Com'') = ''a@b.com''"
  unfolding asciiStrings_sel by code_simp
lemma ev_text_buy_milk: "TrimSpace asciiStrings ''buy milk'' = ''buy milk''"
  unfolding asciiStrings_sel by code_simp
lemma ev_text_wash_car: "TrimSpace asciiStrings '' wash car '' = ''wash car''"
  unfolding asciiStrings_sel by code_simp
lemma ev_hex_3: "Hex 0x507f1f77bcf86cd799439013 = ''507f1f77bcf86cd799439013''"
  by code_simp
lemma ev_bson_later: "bsonDateTime 1700000002123456789 = 1700000002123000000"
  by (simp add: bsonDateTime_def)

text \<open>
  The theorem with the example library at the store of two Todos, neither of a@b.com, with
  a fresh identifier: first the example of the claim, then a create email that is itself
  padded and in mixed case, listed with the plain email. Each listing holds the created
  Todo alone, its owner a@b.com.
\<close>

theorem createTodo_then_listTodos_witness:
  "\<not> fails laterEnv InsertOne
   \<and> NewObjectID laterEnv \<notin> Todo.ID ` set (todoCollection twoTodoStore)
   \<and> \<not> fails exampleEnv Find \<and> \<not> fails exampleEnv CursorAll
   \<and> fst (createTodo asciiStrings laterEnv
             (Some \<lparr>createInput.Email = ''a@b.com'', Title = ''buy milk''\<rparr>)
                 twoTodoStore)
     = (201, todoBody \<lparr>TodoResponse.ID = ''507f1f77bcf86cd799439013'', Email = ''a@b.com'',
                       Title = ''buy milk'', Completed = False,
                       CreatedAt = 1700000002123456789\<rparr>)
   \<and> fst (listTodos asciiStrings exampleEnv ''A@B.COM ''
            (snd (createTodo asciiStrings laterEnv
                    (Some \<lparr>createInput.Email = ''a@b.com'', Title = ''buy milk''\<rparr>)
                        twoTodoStore)))
     = (200, todosBody
          [\<lparr>TodoResponse.ID = ''507f1f77bcf86cd799439013'', Email = ''a@b.com'',
            Title = ''buy milk'', Completed = False, CreatedAt = 1700000002123000000\<rparr>])
   \<and> fst (createTodo asciiStrings laterEnv
             (Some \<lparr>createInput.Email = '' A@b.Com'', Title = '' wash car ''\<rparr>)
                 twoTodoStore)
     = (201, todoBody \<lparr>TodoResponse.ID = ''507f1f77bcf86cd799439013'', Email = ''a@b.com'',
                       Title = ''wash car'', Completed = False,
                       CreatedAt = 1700000002123456789\<rparr>)
   \<and> fst (listTodos asciiStrings exampleEnv ''a@b.com''
            (snd (createTodo asciiStrings laterEnv
                    (Some \<lparr>createInput.Email = '' A@b.Com'', Title = '' wash car ''\<rparr>)
                    twoTodoStore)))
     = (200, todosBody
          [\<lparr>TodoResponse.ID = ''507f1f77bcf86cd799439013'', Email = ''a@b.com'',
            Title = ''wash car'', Completed = False, CreatedAt = 1700000002123000000\<rparr>])"
proof -
  have h: "\<not> fails laterEnv InsertOne"
    "NewObjectID laterEnv \<notin> Todo.ID ` set (todoCollection twoTodoStore)"
    "\<not> fails exampleEnv Find" "\<not> fails exampleEnv CursorAll"
    by (simp_all add: laterEnv_def exampleEnv_def twoTodoStore_def)
  have n: "NewObjectID laterEnv = 0x507f1f77bcf86cd799439013" "Now laterEnv = 1700000002123456789"
    by (simp_all add: laterEnv_def)
  have v1: "ToLower asciiStrings (TrimSpace asciiStrings ''a@b.com'') \<noteq> []
     \<and> TrimSpace asciiStrings ''buy milk'' \<noteq> [] \<and> ''A@B.COM '' \<noteq> []
     \<and> ToLower asciiStrings (TrimSpace asciiStrings ''A@B.COM '')
         = ToLower asciiStrings (TrimSpace asciiStrings ''a@b.com'')
     \<and> \<not> fails laterEnv InsertOne
     \<and> NewObjectID laterEnv \<notin> Todo.ID ` set (todoCollection twoTodoStore)
     \<and> \<not> fails exampleEnv Find \<and> \<not> fails exampleEnv CursorAll"
    using h by (simp add: ev_email_ab ev_email_ab_upper ev_text_buy_milk)
  have v2: "ToLower asciiStrings (TrimSpace asciiStrings '' A@b.Com'') \<noteq> []
     \<and> TrimSpace asciiStrings '' wash car '' \<noteq> [] \<and> ''a@b.com'' \<noteq> []
     \<and> ToLower asciiStrings (TrimSpace asciiStrings ''a@b.com'')
         = ToLower asciiStrings (TrimSpace asciiStrings '' A@b.Com'')
     \<and> \<not> fails laterEnv InsertOne
     \<and> NewObjectID laterEnv \<notin> Todo.ID ` set (todoCollection twoTodoStore)
     \<and> \<not> fails exampleEnv Find \<and> \<not> fails exampleEnv CursorAll"
    using h by (simp add: ev_email_ab ev_email_ab_mixed ev_text_wash_car)
  note t1 = createTodo_then_listTodos [where lib = asciiStrings and E = "''a@b.com''"
      and T = "''buy milk''" and Q = "''A@B.COM ''" and e = laterEnv and e' = exampleEnv
      and s = twoTodoStore, THEN mp, OF v1]
  note t2 = createTodo_then_listTodos [where lib = asciiStrings and E = "'' A@b.Com''"
      and T = "'' wash car ''" and Q = "''a@b.com''" and e = laterEnv and e' = exampleEnv
      and s = twoTodoStore, THEN mp, OF v2]
  have 1: "fst (createTodo asciiStrings laterEnv
             (Some \<lparr>createInput.Email = ''a@b.com'', Title = ''buy milk''\<rparr>)
                 twoTodoStore)
     = (201, todoBody \<lparr>TodoResponse.ID = ''507f1f77bcf86cd799439013'', Email = ''a@b.com'',
                       Title = ''buy milk'', Completed = False,
                       CreatedAt = 1700000002123456789\<rparr>)"
    using t1 [THEN conjunct1] by (simp add: n ev_hex_3 ev_email_ab ev_text_buy_milk)
  have 2: "fst (listTodos asciiStrings exampleEnv ''A@B.COM ''
            (snd (createTodo asciiStrings laterEnv
                    (Some \<lparr>createInput.Email = ''a@b.com'', Title = ''buy milk''\<rparr>)
                        twoTodoStore)))
     = (200, todosBody
          [\<lparr>TodoResponse.ID = ''507f1f77bcf86cd799439013'', Email = ''a@b.com'',
            Title = ''buy milk'', Completed = False, CreatedAt = 1700000002123000000\<rparr>])"
    using t1 [THEN conjunct2, THEN conjunct2, THEN conjunct2]
    by (simp add: n ev_hex_3 ev_bson_later ev_email_ab ev_email_ab_upper ev_text_buy_milk
        twoTodoStore_def)
  have 3: "fst (createTodo asciiStrings laterEnv
             (Some \<lparr>createInput.Email = '' A@b.Com'', Title = '' wash car ''\<rparr>)
                 twoTodoStore)
     = (201, todoBody \<lparr>TodoResponse.ID = ''507f1f77bcf86cd799439013'', Email = ''a@b.com'',
                       Title = ''wash car'', Completed = False,
                       CreatedAt = 1700000002123456789\<rparr>)"
    using t2 [THEN conjunct1] by (simp add: n ev_hex_3 ev_email_ab_mixed ev_text_wash_car)
  have 4: "fst (listTodos asciiStrings exampleEnv ''a@b.com''
            (snd (createTodo asciiStrings laterEnv
                    (Some \<lparr>createInput.Email = '' A@b.Com'', Title = '' wash car ''\<rparr>)
                    twoTodoStore)))
     = (200, todosBody
          [\<lparr>TodoResponse.ID = ''507f1f77bcf86cd799439013'', Email = ''a@b.com'',
            Title = ''wash car'', Completed = False, CreatedAt = 1700000002123000000\<rparr>])"
    using t2 [THEN conjunct2, THEN conjunct2, THEN conjunct2]
    by (simp add: n ev_hex_3 ev_bson_later ev_email_ab ev_email_ab_mixed ev_text_wash_car
        twoTodoStore_def)
  from h 1 2 3 4 show ?thesis by blast
qed

section \<open>The partial update\<close>

lemma updateFirst_length: "length (updateFirst P f xs) = length xs"
  by (induction xs) auto

lemma updateFirst_nth:
  "k < length xs \<Longrightarrow>
     updateFirst P f xs ! k = xs ! k \<or> (P (xs ! k) \<and> updateFirst P f xs ! k = f (xs ! k))"
proof (induction xs arbitrary: k)
  case Nil
  then show ?case by simp
next
  case (Cons x xs)
  then show ?case by (cases k) auto
qed

lemma updateFirst_distinct:
  "distinct (map g xs) \<Longrightarrow>
     updateFirst (\<lambda>t. g t = k) f xs = map (\<lambda>x. if g x = k then f x else x) xs"
proof (induction xs)
  case Nil
  then show ?case by simp
next
  case (Cons x xs)
  show ?case
  proof (cases "g x = k")
    case True
    with Cons.prems have "\<forall>u \<in> set xs. g u \<noteq> k" by (auto simp: image_iff)
    then have "map (\<lambda>x. if g x = k then f x else x) xs = xs"
      by (simp add: map_idI)
    with True show ?thesis by simp
  next
    case False
    with Cons show ?thesis by simp
  qed
qed

lemma find_map_update:
  assumes "\<And>x. g (f x) = g x"
  shows "find (\<lambda>t. g t = k) (map (\<lambda>x. if g x = k then f x else x) xs)
           = map_option f (find (\<lambda>t. g t = k) xs)"
  by (induction xs) (auto simp: assms)

lemma applySet_fields:
  "Todo.ID (applySet u t) = Todo.ID t"
  "Todo.Email (applySet u t) = Todo.Email t"
  "Todo.CreatedAt (applySet u t) = Todo.CreatedAt t"
  "fst u = None \<Longrightarrow> Todo.Title (applySet u t) = Todo.Title t"
  "snd u = None \<Longrightarrow> Todo.Completed (applySet u t) = Todo.Completed t"
  by (simp_all add: applySet_def)

lemma updateTodo_todos_cases:
  "todoCollection (snd (updateTodo lib e idHex (Some input) s)) = todoCollection s
   \<or> (\<exists>objID. ObjectIDFromHex idHex = Some objID
        \<and> todoCollection (snd (updateTodo lib e idHex (Some input) s))
            = updateFirst (\<lambda>t. Todo.ID t = objID)
                (applySet (map_option (TrimSpace lib) (updateInput.Title input),
                           updateInput.Completed input))
                (todoCollection s))"
  by (auto simp: updateTodo_def normalizeText_def normalizeText_eq todosUpdateByID_def
      todosFindOne_def logCall_def Let_def
      split: option.splits sum.splits if_splits)

lemma updateTodo_users: "userCollection (snd (updateTodo lib e idHex bound s)) = userCollection s"
  by (auto simp: updateTodo_def normalizeText_def normalizeText_eq todosUpdateByID_def
      todosFindOne_def logCall_def Let_def
      split: option.splits sum.splits if_splits)

lemma updateTodo_success:
  assumes "updateTodo lib e idHex (Some input) s = ((200, b), s')"
  shows "\<exists>objID updated. ObjectIDFromHex idHex = Some objID
     \<and> todoCollection s' = updateFirst (\<lambda>t. Todo.ID t = objID)
                (applySet (map_option (TrimSpace lib) (updateInput.Title input),
                           updateInput.Completed input))
                (todoCollection s)
     \<and> find (\<lambda>t. Todo.ID t = objID) (todoCollection s') = Some updated
     \<and> b = todoBody (toTodoResponse updated)"
  using assms
  by (auto simp: updateTodo_def normalizeText_def normalizeText_eq todosUpdateByID_def
      todosFindOne_def logCall_def Let_def
      StatusBadRequest_def StatusInternalServerError_def StatusOK_def
      split: option.splits sum.splits if_splits)

text \<open>
  Claim C5. Whatever the outcome of an update whose body binds, the Users are unchanged, the
  Todos collection keeps its length, and every stored Todo keeps its \<open>id\<close>, \<open>email\<close> and
  \<open>createdAt\<close>; it keeps its title when no title is supplied, its \<open>completed\<close> when
  none is supplied, and it is unchanged altogether when it is not the Todo addressed. When
  the update succeeds (status 200) on a collection with distinct identifiers, a Todo with the
  addressed identifier exists, the collection afterwards is the one before with the supplied
  fields written into that Todo (the title trimmed) and nothing else changed, and the answer
  is the projection of that Todo.
\<close>

theorem updateTodo_writes_only_supplied_fields:
  "userCollection (snd (updateTodo lib e idHex (Some input) s)) = userCollection s
   \<and> length (todoCollection (snd (updateTodo lib e idHex (Some input) s)))
       = length (todoCollection s)
   \<and> (\<forall>k < length (todoCollection s).
        Todo.ID (todoCollection (snd (updateTodo lib e idHex (Some input) s)) ! k)
          = Todo.ID (todoCollection s ! k)
        \<and> Todo.Email (todoCollection (snd (updateTodo lib e idHex (Some input) s)) ! k)
          = Todo.Email (todoCollection s ! k)
        \<and> Todo.CreatedAt (todoCollection (snd (updateTodo lib e idHex (Some input) s)) ! k)
          = Todo.CreatedAt (todoCollection s ! k)
        \<and> (updateInput.Title input = None \<longrightarrow>
             Todo.Title (todoCollection (snd (updateTodo lib e idHex (Some input) s)) ! k)
               = Todo.Title (todoCollection s ! k))
        \<and> (updateInput.Completed input = None \<longrightarrow>
             Todo.Completed (todoCollection (snd (updateTodo lib e idHex (Some input) s)) ! k)
               = Todo.Completed (todoCollection s ! k))
        \<and> (ObjectIDFromHex idHex \<noteq> Some (Todo.ID
            (todoCollection s ! k)) \<longrightarrow>
             todoCollection (snd (updateTodo lib e idHex (Some input) s)) ! k
               = todoCollection s ! k))
   \<and> (\<forall>b s'. distinct (map Todo.ID (todoCollection s))
          \<and> updateTodo lib e idHex (Some input) s = ((200, b), s') \<longrightarrow>
        (\<exists>t \<in> set (todoCollection s).
           ObjectIDFromHex idHex = Some (Todo.ID t)
           \<and> b = todoBody (toTodoResponse
                   (t\<lparr>Todo.Title := (case updateInput.Title input of
                                        None \<Rightarrow> Todo.Title t | Some v \<Rightarrow>
                                            TrimSpace lib v),
                      Todo.Completed := (case updateInput.Completed input of
                                        None \<Rightarrow> Todo.Completed t | Some c \<Rightarrow>
                                            c)\<rparr>))
           \<and> todoCollection s'
               = map (\<lambda>x. if Todo.ID x = Todo.ID t
                          then x\<lparr>Todo.Title := (case updateInput.Title input of
                                        None \<Rightarrow> Todo.Title x | Some v \<Rightarrow>
                                            TrimSpace lib v),
                                 Todo.Completed := (case updateInput.Completed input of
                                        None \<Rightarrow> Todo.Completed x | Some c \<Rightarrow>
                                            c)\<rparr>
                          else x)
                   (todoCollection s)))"
proof (intro conjI allI impI)
  let ?s' = "snd (updateTodo lib e idHex (Some input) s)"
  let ?u = "(map_option (TrimSpace lib) (updateInput.Title input), updateInput.Completed input)"
  note cases = updateTodo_todos_cases
      [where lib = lib and e = e and idHex = idHex and input = input and s = s]
  show "userCollection ?s' = userCollection s"
    by (rule updateTodo_users)
  show "length (todoCollection ?s') = length (todoCollection s)"
    using cases by (auto simp: updateFirst_length)
  fix k assume k: "k < length (todoCollection s)"
  have nth: "todoCollection ?s' ! k = todoCollection s ! k
      \<or> (\<exists>objID. ObjectIDFromHex idHex = Some objID
          \<and> Todo.ID (todoCollection s ! k) = objID
            \<and> todoCollection ?s' ! k = applySet ?u (todoCollection s ! k))"
    using cases
      updateFirst_nth [OF k, of "\<lambda>t. Todo.ID t = the (ObjectIDFromHex idHex)" "applySet ?u"]
    by auto
  show "Todo.ID (todoCollection ?s' ! k) = Todo.ID (todoCollection s ! k)"
    using nth by (auto simp: applySet_fields)
  show "Todo.Email (todoCollection ?s' ! k) = Todo.Email (todoCollection s ! k)"
    using nth by (auto simp: applySet_fields)
  show "Todo.CreatedAt (todoCollection ?s' ! k) = Todo.CreatedAt (todoCollection s ! k)"
    using nth by (auto simp: applySet_fields)
  show "Todo.Title (todoCollection ?s' ! k) = Todo.Title (todoCollection s ! k)"
    if "updateInput.Title input = None"
    using nth that by (auto simp: applySet_fields)
  show "Todo.Completed (todoCollection ?s' ! k) = Todo.Completed (todoCollection s ! k)"
    if "updateInput.Completed input = None"
    using nth that by (auto simp: applySet_fields)
  show "todoCollection ?s' ! k = todoCollection s ! k"
    if "ObjectIDFromHex idHex \<noteq> Some (Todo.ID (todoCollection s ! k))"
    using nth that by auto
next
  fix b s'
  let ?u = "(map_option (TrimSpace lib) (updateInput.Title input), updateInput.Completed input)"
  let ?w = "\<lambda>x. x\<lparr>Todo.Title := (case updateInput.Title input of
                                        None \<Rightarrow> Todo.Title x | Some v \<Rightarrow>
                                            TrimSpace lib v),
                   Todo.Completed := (case updateInput.Completed input of
                                        None \<Rightarrow> Todo.Completed x | Some c \<Rightarrow>
                                            c)\<rparr>"
  assume a: "distinct (map Todo.ID (todoCollection s))
          \<and> updateTodo lib e idHex (Some input) s = ((200, b), s')"
  have w: "applySet ?u = ?w"
    by (rule ext) (simp add: applySet_def split: option.splits)
  from a obtain objID updated where o: "ObjectIDFromHex idHex = Some objID"
    and s': "todoCollection s' = updateFirst (\<lambda>t. Todo.ID t = objID) (applySet ?u)
                (todoCollection s)"
    and f: "find (\<lambda>t. Todo.ID t = objID) (todoCollection s') = Some updated"
    and b: "b = todoBody (toTodoResponse updated)"
    using updateTodo_success [where lib = lib and e = e and idHex = idHex and input = input
        and s = s and b = b and s' = s'] by blast
  have m: "todoCollection s' = map (\<lambda>x. if Todo.ID x = objID then ?w x else x)
      (todoCollection s)"
    using a by (simp add: s' updateFirst_distinct w)
  have "find (\<lambda>t. Todo.ID t = objID) (todoCollection s')
      = map_option ?w (find (\<lambda>t. Todo.ID t = objID) (todoCollection s))"
    unfolding m by (rule find_map_update) simp
  with f obtain t where t: "find (\<lambda>t. Todo.ID t = objID) (todoCollection s) = Some t"
    and u: "updated = ?w t"
    by auto
  from t have tin: "t \<in> set (todoCollection s)" and tid: "Todo.ID t = objID"
    by (auto simp: find_Some_iff)
  show "\<exists>t \<in> set (todoCollection s).
           ObjectIDFromHex idHex = Some (Todo.ID t)
           \<and> b = todoBody (toTodoResponse (?w t))
           \<and> todoCollection s' = map (\<lambda>x. if Todo.ID x = Todo.ID t then ?w x else x)
                   (todoCollection s)"
    using tin tid o b u m by blast
qed


lemma ev_text_oat: "TrimSpace asciiStrings '' buy oat milk '' = ''buy oat milk''"
  unfolding asciiStrings_sel by code_simp

text \<open>
  The theorem at the store of two Todos: \<open>{completed: true}\<close> on the first leaves its title
  and the second Todo as they were; a title alone on the second is stored trimmed and leaves
  \<open>completed\<close> true.
\<close>

theorem updateTodo_writes_only_supplied_fields_witness:
  "distinct (map Todo.ID (todoCollection twoTodoStore))
   \<and> updateTodo asciiStrings exampleEnv ''507f1f77bcf86cd799439011''
        (Some \<lparr>updateInput.Title = None, Completed = Some True\<rparr>) twoTodoStore
       = ((200, todoBody \<lparr>TodoResponse.ID = ''507f1f77bcf86cd799439011'', Email =
           ''u@x.com'',
                          Title = ''wash car'', Completed = True,
                          CreatedAt = 1700000000123000000\<rparr>),
          twoTodoStore
            \<lparr>todoCollection :=
               [\<lparr>Todo.ID = 0x507f1f77bcf86cd799439011, Email = ''u@x.com'', Title =
                   ''wash car'',
                 Completed = True, CreatedAt = 1700000000123000000\<rparr>,
                \<lparr>Todo.ID = 0x507f1f77bcf86cd799439012, Email = ''v@x.com'', Title =
                    ''buy milk'',
                 Completed = True, CreatedAt = 1700000001123000000\<rparr>],
             calls := [(todos, UpdateByID), (todos, FindOne)]\<rparr>)
   \<and> Todo.Title (todoCollection (snd
       (updateTodo asciiStrings exampleEnv ''507f1f77bcf86cd799439011''
        (Some \<lparr>updateInput.Title = None, Completed = Some True\<rparr>) twoTodoStore)) ! 0)
       = ''wash car''
   \<and> todoCollection (snd (updateTodo asciiStrings exampleEnv ''507f1f77bcf86cd799439011''
        (Some \<lparr>updateInput.Title = None, Completed = Some True\<rparr>) twoTodoStore)) ! 1
       = todoCollection twoTodoStore ! 1
   \<and> fst (updateTodo asciiStrings exampleEnv ''507f1f77bcf86cd799439012''
        (Some \<lparr>updateInput.Title = Some '' buy oat milk '', Completed = None\<rparr>)
            twoTodoStore)
       = (200, todoBody \<lparr>TodoResponse.ID = ''507f1f77bcf86cd799439012'', Email = ''v@x.com'',
                         Title = ''buy oat milk'', Completed = True,
                         CreatedAt = 1700000001123000000\<rparr>)
   \<and> Todo.Completed (todoCollection (snd
       (updateTodo asciiStrings exampleEnv ''507f1f77bcf86cd799439012''
        (Some \<lparr>updateInput.Title = Some '' buy oat milk '', Completed = None\<rparr>)
            twoTodoStore)) ! 1)
       = True"
proof -
  have d: "distinct (map Todo.ID (todoCollection twoTodoStore))"
    by (simp add: twoTodoStore_def)
  have l: "(0::nat) < length (todoCollection twoTodoStore)"
    "(1::nat) < length (todoCollection twoTodoStore)"
    by (simp_all add: twoTodoStore_def)
  have e1: "updateTodo asciiStrings exampleEnv ''507f1f77bcf86cd799439011''
        (Some \<lparr>updateInput.Title = None, Completed = Some True\<rparr>) twoTodoStore
       = ((200, todoBody \<lparr>TodoResponse.ID = ''507f1f77bcf86cd799439011'', Email =
           ''u@x.com'',
                          Title = ''wash car'', Completed = True,
                          CreatedAt = 1700000000123000000\<rparr>),
          twoTodoStore
            \<lparr>todoCollection :=
               [\<lparr>Todo.ID = 0x507f1f77bcf86cd799439011, Email = ''u@x.com'', Title =
                   ''wash car'',
                 Completed = True, CreatedAt = 1700000000123000000\<rparr>,
                \<lparr>Todo.ID = 0x507f1f77bcf86cd799439012, Email = ''v@x.com'', Title =
                    ''buy milk'',
                 Completed = True, CreatedAt = 1700000001123000000\<rparr>],
             calls := [(todos, UpdateByID), (todos, FindOne)]\<rparr>)"
    by (simp add: updateTodo_def normalizeText_def normalizeText_eq todosUpdateByID_def
        todosFindOne_def logCall_def
        applySet_def toTodoResponse_def exampleEnv_def twoTodoStore_def StatusOK_def ev_id_1
            ev_hex_1)
  have e2: "fst (updateTodo asciiStrings exampleEnv ''507f1f77bcf86cd799439012''
        (Some \<lparr>updateInput.Title = Some '' buy oat milk '', Completed = None\<rparr>)
            twoTodoStore)
       = (200, todoBody \<lparr>TodoResponse.ID = ''507f1f77bcf86cd799439012'', Email = ''v@x.com'',
                         Title = ''buy oat milk'', Completed = True,
                         CreatedAt = 1700000001123000000\<rparr>)"
    by (simp add: updateTodo_def normalizeText_def normalizeText_eq todosUpdateByID_def
        todosFindOne_def logCall_def
        applySet_def toTodoResponse_def exampleEnv_def twoTodoStore_def StatusOK_def ev_id_2
            ev_hex_2 ev_text_oat)
  note a = updateTodo_writes_only_supplied_fields
    [where lib = asciiStrings and e = exampleEnv and idHex = "''507f1f77bcf86cd799439011''"
       and input = "\<lparr>updateInput.Title = None, Completed = Some True\<rparr>" and s =
           twoTodoStore,
     THEN conjunct2, THEN conjunct2, THEN conjunct1, THEN spec, THEN mp]
  note b = updateTodo_writes_only_supplied_fields
    [where lib = asciiStrings and e = exampleEnv and idHex = "''507f1f77bcf86cd799439012''"
       and input = "\<lparr>updateInput.Title = Some '' buy oat milk '', Completed = None\<rparr>"
       and s = twoTodoStore,
     THEN conjunct2, THEN conjunct2, THEN conjunct1, THEN spec, THEN mp]
  have 3: "Todo.Title (todoCollection (snd
      (updateTodo asciiStrings exampleEnv ''507f1f77bcf86cd799439011''
        (Some \<lparr>updateInput.Title = None, Completed = Some True\<rparr>) twoTodoStore)) ! 0)
       = ''wash car''"
    using a [OF l(1)] by (simp add: twoTodoStore_def)
  have 4: "todoCollection (snd (updateTodo asciiStrings exampleEnv ''507f1f77bcf86cd799439011''
        (Some \<lparr>updateInput.Title = None, Completed = Some True\<rparr>) twoTodoStore)) ! 1
       = todoCollection twoTodoStore ! 1"
    using a [OF l(2)] by (simp add: twoTodoStore_def ev_id_1)
  have 6: "Todo.Completed (todoCollection (snd
      (updateTodo asciiStrings exampleEnv ''507f1f77bcf86cd799439012''
        (Some \<lparr>updateInput.Title = Some '' buy oat milk '', Completed = None\<rparr>)
            twoTodoStore)) ! 1)
       = True"
    using b [OF l(2)] by (simp add: twoTodoStore_def)
  from d e1 3 4 e2 6 show ?thesis by blast
qed

end
